theory Spec2Isabelle
  imports Main "HOL-Library.Word"
begin

unbundle bit_operations_syntax

section \<open>Package errors: normalising Go errors into reportable records\<close>

text \<open>
  The development embeds the Go package \<^verbatim>\<open>errors\<close> of the Lantern project:
  the classifier \<^verbatim>\<open>parseError\<close> with its two identity-keyed tables, the
  decorators \<^verbatim>\<open>WithOp\<close>, \<^verbatim>\<open>WithProxy\<close>, \<^verbatim>\<open>WithLocale\<close> and
  \<^verbatim>\<open>WithUserAgent\<close>, the collector (\<^verbatim>\<open>NewErrorCollector\<close>, \<^verbatim>\<open>Log\<close>)
  and the process-wide reporter (\<^verbatim>\<open>ReportTo\<close>, \<^verbatim>\<open>StdReporter\<close>,
  \<^verbatim>\<open>toJSON\<close>).

  Go strings are byte strings and are modelled by \<^typ>\<open>string\<close>. A run-time panic is a
  value of type \<open>panic\<close>; a function that can panic returns \<open>panic + 'a\<close>.

  What lies outside the package is fixed as follows. The method sets and type names of
  the error types, and what the \<^verbatim>\<open>Error()\<close> of an error value does (it returns a
  text or it panics), are data of the error value; the decorators passed to \<^verbatim>\<open>Log\<close>
  are closures made by the package's four constructors; calls are sequential.
\<close>

subsection \<open>Panics\<close>

datatype panic =
    NilDereference            \<comment> \<open>a method call or field read through nil\<close>
  | UnhashableKey string      \<comment> \<open>map access with a key whose dynamic type cannot be hashed\<close>
  | PanicMsg string           \<comment> \<open>an explicit \<^verbatim>\<open>panic(msg)\<close>\<close>

subsection \<open>Error values\<close>

text \<open>
  The package-level error variables that key the table \<^verbatim>\<open>miscErrors\<close>. Each of them holds
  a pointer made by \<^verbatim>\<open>errors.New\<close>; a Go map keyed by \<^verbatim>\<open>error\<close> compares such keys
  by pointer identity, so the variable's name stands for the pointer.
\<close>

datatype pkgvar =
    Bufio_ErrInvalidUnreadByte | Bufio_ErrInvalidUnreadRune | Bufio_ErrBufferFull
  | Bufio_ErrNegativeCount | Bufio_ErrTooLong | Bufio_ErrNegativeAdvance
  | Bufio_ErrAdvanceTooFar | Bufio_ErrFinalToken
  | Http_ErrWriteAfterFlush | Http_ErrBodyNotAllowed | Http_ErrHijacked
  | Http_ErrContentLength | Http_ErrBodyReadAfterClose | Http_ErrHandlerTimeout
  | Http_ErrLineTooLong | Http_ErrMissingFile | Http_ErrNoCookie | Http_ErrNoLocation
  | Http_ErrSkipAltProtocol
  | Io_EOF | Io_ErrClosedPipe | Io_ErrNoProgress | Io_ErrShortBuffer | Io_ErrShortWrite
  | Io_ErrUnexpectedEOF
  | Os_ErrInvalid | Os_ErrPermission | Os_ErrExist | Os_ErrNotExist
  | Exec_ErrNotFound
  | X509_ErrUnsupportedAlgorithm | X509_IncorrectPasswordError
  | Hex_ErrLength

text \<open>The variables of package \<^verbatim>\<open>net/http\<close> that hold a \<^verbatim>\<open>*http.ProtocolError\<close> and
  key the table \<^verbatim>\<open>httpProtocolErrors\<close>.\<close>

datatype httpvar =
    Http_ErrHeaderTooLong | Http_ErrShortBody | Http_ErrNotSupported
  | Http_ErrUnexpectedTrailer | Http_ErrMissingContentLength | Http_ErrNotMultipart
  | Http_ErrMissingBoundary

text \<open>
  A value of the interface type \<^verbatim>\<open>error\<close> is \<open>Nil\<close> or a dynamic value \<open>Val s m\<close>:
  \<open>s\<close> gives the dynamic type together with the fields that \<^verbatim>\<open>parseError\<close> reads, and
  \<open>m\<close> is what a call of the value's \<^verbatim>\<open>Error()\<close> method does: it returns a text
  (\<open>Inr\<close>) or panics (\<open>Inl\<close>), as the methods of \<^verbatim>\<open>*os.LinkError\<close>,
  \<^verbatim>\<open>*net.OpError\<close> or \<^verbatim>\<open>*json.MarshalerError\<close> do when their field \<^verbatim>\<open>Err\<close> is nil,
  and most methods do on a nil pointer. There is one shape for every type named in a type
  switch of \<^verbatim>\<open>parseError\<close>, in the order of the source; a shape of a pointer type
  stands for a pointer that is not nil, and \<open>NilPtr t\<close> is the nil pointer of the pointer
  type \<open>t\<close> of a switch. \<open>PkgVar\<close> is for the variables of \<open>pkgvar\<close>, and \<open>Other\<close> for
  every other type.

  \<^item> \<open>NetOpError Op Source Addr Net Err\<close>: \<open>Source\<close> and \<open>Addr\<close> are \<open>None\<close> for a nil
    \<^verbatim>\<open>net.Addr\<close>, else the text of their \<^verbatim>\<open>String()\<close> (the addresses of the standard
    library return one, also on a nil pointer).
  \<^item> \<open>HttpProtocolError v ErrorString\<close>: \<open>v\<close> tells which variable of \<open>httpvar\<close>, if any,
    holds this very pointer.
  \<^item> \<open>UrlEscapeError p\<close>, \<open>UrlInvalidHostError p\<close>, \<open>TextprotoProtocolError p\<close>: the
    switch lists the type and the pointer to it; \<open>p\<close> is true for the pointer.
  \<^item> \<open>TlsRecordHeaderError Msg RecordHeader\<close>, \<open>ExecExitError Stderr\<close>,
    \<open>OsPathError Op Path Err\<close>, \<open>OsSyscallError Syscall Err\<close>, \<open>ExecError Name Err\<close>,
    \<open>StrconvNumError Func Num Err\<close>, \<open>UrlError Op URL Err\<close>, \<open>NetAddrError Err Addr\<close>,
    \<open>NetDNSError Err Name Server\<close>, \<open>NetParseError Type Text\<close>, \<open>X509HostnameError Host\<close>,
    \<open>TimeParseError Message\<close>: the fields of the Go struct that the classifier reads.
  \<^item> \<open>NetInvalidAddrError\<close> is the pointer type \<^verbatim>\<open>*net.InvalidAddrError\<close> that the
    switch names; a value of \<^verbatim>\<open>net.InvalidAddrError\<close> itself is an \<open>Other\<close>.
  \<^item> \<open>Other name net rt hashable\<close>: a type outside the switches, with the text of
    \<^verbatim>\<open>reflect.TypeOf(err).String()\<close>, whether it implements \<^verbatim>\<open>net.Error\<close>, whether it
    implements \<^verbatim>\<open>runtime.Error\<close>, and whether its values can be hashed (a slice, map or
    function type, or a struct holding one, cannot).
\<close>

datatype ptrtype =
    P_NetOpError
  | P_NetAddrError
  | P_NetDNSError
  | P_NetInvalidAddrError
  | P_NetParseError
  | P_UrlError
  | P_RuntimeTypeAssertionError
  | P_HttpProtocolError
  | P_UrlEscapeError
  | P_UrlInvalidHostError
  | P_TextprotoError
  | P_TextprotoProtocolError
  | P_JsonInvalidUTF8Error
  | P_JsonInvalidUnmarshalError
  | P_JsonMarshalerError
  | P_JsonSyntaxError
  | P_JsonUnmarshalFieldError
  | P_JsonUnmarshalTypeError
  | P_JsonUnsupportedTypeError
  | P_JsonUnsupportedValueError
  | P_OsLinkError
  | P_OsPathError
  | P_OsSyscallError
  | P_ExecError
  | P_ExecExitError
  | P_StrconvNumError
  | P_TimeParseError

datatype goerr =
    Nil
  | Val shape "panic + string"
and shape =
    NetOpError string "string option" "string option" string goerr
  | NetAddrError string string
  | NetDNSError string string string
  | NetInvalidAddrError
  | NetParseError string string
  | NetUnknownNetworkError
  | SyscallErrno
  | UrlError string string goerr
  | RuntimeTypeAssertionError
  | HttpProtocolError "httpvar option" string
  | UrlEscapeError bool
  | UrlInvalidHostError bool
  | TextprotoError
  | TextprotoProtocolError bool
  | TlsRecordHeaderError string "8 word list"
  | X509CertificateInvalidError
  | X509ConstraintViolationError
  | X509HostnameError string
  | X509InsecureAlgorithmError
  | X509SystemRootsError
  | X509UnhandledCriticalExtension
  | X509UnknownAuthorityError
  | HexInvalidByteError
  | JsonInvalidUTF8Error
  | JsonInvalidUnmarshalError
  | JsonMarshalerError
  | JsonSyntaxError
  | JsonUnmarshalFieldError
  | JsonUnmarshalTypeError
  | JsonUnsupportedTypeError
  | JsonUnsupportedValueError
  | OsLinkError
  | OsPathError string string goerr
  | OsSyscallError string goerr
  | ExecError string goerr
  | ExecExitError string
  | StrconvNumError string string goerr
  | TimeParseError string
  | NilPtr ptrtype
  | PkgVar pkgvar
  | Other string bool bool bool

text \<open>\<^verbatim>\<open>err.Error()\<close>: a method call on the interface value; it faults on nil, and
  otherwise does what the value's method does.\<close>

fun callError :: "goerr \<Rightarrow> panic + string" where
  "callError Nil = Inl NilDereference"
| "callError (Val s m) = m"

text \<open>The text of \<^verbatim>\<open>reflect.TypeOf(v).String()\<close> for a dynamic value of each shape, as
  the Go toolchain of the repository prints it (since Go 1.16 \<^verbatim>\<open>os.PathError\<close> is an
  alias and prints as \<^verbatim>\<open>*fs.PathError\<close>).\<close>

definition ptrTypeString :: "ptrtype \<Rightarrow> string" where
  "ptrTypeString t =
    (case t of
       P_NetOpError \<Rightarrow> ''*net.OpError''
     | P_NetAddrError \<Rightarrow> ''*net.AddrError''
     | P_NetDNSError \<Rightarrow> ''*net.DNSError''
     | P_NetInvalidAddrError \<Rightarrow> ''*net.InvalidAddrError''
     | P_NetParseError \<Rightarrow> ''*net.ParseError''
     | P_UrlError \<Rightarrow> ''*url.Error''
     | P_RuntimeTypeAssertionError \<Rightarrow> ''*runtime.TypeAssertionError''
     | P_HttpProtocolError \<Rightarrow> ''*http.ProtocolError''
     | P_UrlEscapeError \<Rightarrow> ''*url.EscapeError''
     | P_UrlInvalidHostError \<Rightarrow> ''*url.InvalidHostError''
     | P_TextprotoError \<Rightarrow> ''*textproto.Error''
     | P_TextprotoProtocolError \<Rightarrow> ''*textproto.ProtocolError''
     | P_JsonInvalidUTF8Error \<Rightarrow> ''*json.InvalidUTF8Error''
     | P_JsonInvalidUnmarshalError \<Rightarrow> ''*json.InvalidUnmarshalError''
     | P_JsonMarshalerError \<Rightarrow> ''*json.MarshalerError''
     | P_JsonSyntaxError \<Rightarrow> ''*json.SyntaxError''
     | P_JsonUnmarshalFieldError \<Rightarrow> ''*json.UnmarshalFieldError''
     | P_JsonUnmarshalTypeError \<Rightarrow> ''*json.UnmarshalTypeError''
     | P_JsonUnsupportedTypeError \<Rightarrow> ''*json.UnsupportedTypeError''
     | P_JsonUnsupportedValueError \<Rightarrow> ''*json.UnsupportedValueError''
     | P_OsLinkError \<Rightarrow> ''*os.LinkError''
     | P_OsPathError \<Rightarrow> ''*os.PathError''
     | P_OsSyscallError \<Rightarrow> ''*os.SyscallError''
     | P_ExecError \<Rightarrow> ''*exec.Error''
     | P_ExecExitError \<Rightarrow> ''*exec.ExitError''
     | P_StrconvNumError \<Rightarrow> ''*strconv.NumError''
     | P_TimeParseError \<Rightarrow> ''*time.ParseError'')"

definition typeString :: "shape \<Rightarrow> string" where
  "typeString s =
    (case s of
       NetOpError opn src addr net inner \<Rightarrow> ''*net.OpError''
     | NetAddrError e a \<Rightarrow> ''*net.AddrError''
     | NetDNSError e n srv \<Rightarrow> ''*net.DNSError''
     | NetInvalidAddrError \<Rightarrow> ''*net.InvalidAddrError''
     | NetParseError t txt \<Rightarrow> ''*net.ParseError''
     | NetUnknownNetworkError \<Rightarrow> ''net.UnknownNetworkError''
     | SyscallErrno \<Rightarrow> ''syscall.Errno''
     | UrlError opn u inner \<Rightarrow> ''*url.Error''
     | RuntimeTypeAssertionError \<Rightarrow> ''*runtime.TypeAssertionError''
     | HttpProtocolError v es \<Rightarrow> ''*http.ProtocolError''
     | UrlEscapeError p \<Rightarrow> (if p then ''*url.EscapeError'' else ''url.EscapeError'')
     | UrlInvalidHostError p \<Rightarrow>
         (if p then ''*url.InvalidHostError'' else ''url.InvalidHostError'')
     | TextprotoError \<Rightarrow> ''*textproto.Error''
     | TextprotoProtocolError p \<Rightarrow>
         (if p then ''*textproto.ProtocolError'' else ''textproto.ProtocolError'')
     | TlsRecordHeaderError msg hdr \<Rightarrow> ''tls.RecordHeaderError''
     | X509CertificateInvalidError \<Rightarrow> ''x509.CertificateInvalidError''
     | X509ConstraintViolationError \<Rightarrow> ''x509.ConstraintViolationError''
     | X509HostnameError h \<Rightarrow> ''x509.HostnameError''
     | X509InsecureAlgorithmError \<Rightarrow> ''x509.InsecureAlgorithmError''
     | X509SystemRootsError \<Rightarrow> ''x509.SystemRootsError''
     | X509UnhandledCriticalExtension \<Rightarrow> ''x509.UnhandledCriticalExtension''
     | X509UnknownAuthorityError \<Rightarrow> ''x509.UnknownAuthorityError''
     | HexInvalidByteError \<Rightarrow> ''hex.InvalidByteError''
     | JsonInvalidUTF8Error \<Rightarrow> ''*json.InvalidUTF8Error''
     | JsonInvalidUnmarshalError \<Rightarrow> ''*json.InvalidUnmarshalError''
     | JsonMarshalerError \<Rightarrow> ''*json.MarshalerError''
     | JsonSyntaxError \<Rightarrow> ''*json.SyntaxError''
     | JsonUnmarshalFieldError \<Rightarrow> ''*json.UnmarshalFieldError''
     | JsonUnmarshalTypeError \<Rightarrow> ''*json.UnmarshalTypeError''
     | JsonUnsupportedTypeError \<Rightarrow> ''*json.UnsupportedTypeError''
     | JsonUnsupportedValueError \<Rightarrow> ''*json.UnsupportedValueError''
     | OsLinkError \<Rightarrow> ''*os.LinkError''
     | OsPathError opn path inner \<Rightarrow> ''*os.PathError''
     | OsSyscallError sc inner \<Rightarrow> ''*os.SyscallError''
     | ExecError n inner \<Rightarrow> ''*exec.Error''
     | ExecExitError stderr \<Rightarrow> ''*exec.ExitError''
     | StrconvNumError f n inner \<Rightarrow> ''*strconv.NumError''
     | TimeParseError msg \<Rightarrow> ''*time.ParseError''
     | NilPtr t \<Rightarrow> ptrTypeString t
     | PkgVar v \<Rightarrow> ''*errors.errorString''
     | Other name net rt hashable \<Rightarrow> name)"

text \<open>\<^verbatim>\<open>reflect.TypeOf(err).String()\<close>: \<^verbatim>\<open>reflect.TypeOf(nil)\<close> is the nil
  \<^verbatim>\<open>reflect.Type\<close>, and the call of \<^verbatim>\<open>String\<close> on it faults.\<close>

fun reflectTypeString :: "goerr \<Rightarrow> panic + string" where
  "reflectTypeString Nil = Inl NilDereference"
| "reflectTypeString (Val s m) = Inr (typeString s)"

text \<open>
  The type assertions \<^verbatim>\<open>err.(net.Error)\<close> and \<^verbatim>\<open>err.(runtime.Error)\<close> succeed when
  the dynamic type has the interface's methods, also for a nil pointer of such a type; both
  fail on the nil interface. The method sets are those of the Go standard library: the
  types of the first switch of \<^verbatim>\<open>parseError\<close> have \<^verbatim>\<open>Timeout\<close> and
  \<^verbatim>\<open>Temporary\<close>, and \<^verbatim>\<open>*runtime.TypeAssertionError\<close> has \<^verbatim>\<open>RuntimeError\<close>.
\<close>

definition implementsNetError :: "goerr \<Rightarrow> bool" where
  "implementsNetError err =
    (case err of
       Nil \<Rightarrow> False
     | Val s m \<Rightarrow>
        (case s of
           NetOpError opn src addr net inner \<Rightarrow> True
         | NetAddrError e a \<Rightarrow> True
         | NetDNSError e n srv \<Rightarrow> True
         | NetInvalidAddrError \<Rightarrow> True
         | NetParseError t txt \<Rightarrow> True
         | NetUnknownNetworkError \<Rightarrow> True
         | SyscallErrno \<Rightarrow> True
         | UrlError opn u inner \<Rightarrow> True
         | NilPtr t \<Rightarrow>
            (case t of
               P_NetOpError \<Rightarrow> True
             | P_NetAddrError \<Rightarrow> True
             | P_NetDNSError \<Rightarrow> True
             | P_NetInvalidAddrError \<Rightarrow> True
             | P_NetParseError \<Rightarrow> True
             | P_UrlError \<Rightarrow> True
             | _ \<Rightarrow> False)
         | Other name net rt hashable \<Rightarrow> net
         | _ \<Rightarrow> False))"

definition implementsRuntimeError :: "goerr \<Rightarrow> bool" where
  "implementsRuntimeError err =
    (case err of
       Nil \<Rightarrow> False
     | Val s m \<Rightarrow>
        (case s of
           RuntimeTypeAssertionError \<Rightarrow> True
         | NilPtr t \<Rightarrow> (case t of P_RuntimeTypeAssertionError \<Rightarrow> True | _ \<Rightarrow> False)
         | Other name net rt hashable \<Rightarrow> rt
         | _ \<Rightarrow> False))"

subsection \<open>The identity-keyed tables\<close>

text \<open>\<^verbatim>\<open>var httpProtocolErrors = map[error]string{...}\<close> and
  \<^verbatim>\<open>var miscErrors = map[error]string{...}\<close>, entry by entry.\<close>

definition httpProtocolErrors :: "(httpvar \<times> string) list" where
  "httpProtocolErrors =
    [(Http_ErrHeaderTooLong, ''http.ErrHeaderTooLong''),
     (Http_ErrShortBody, ''http.ErrShortBody''),
     (Http_ErrNotSupported, ''http.ErrNotSupported''),
     (Http_ErrUnexpectedTrailer, ''http.ErrUnexpectedTrailer''),
     (Http_ErrMissingContentLength, ''http.ErrMissingContentLength''),
     (Http_ErrNotMultipart, ''http.ErrNotMultipart''),
     (Http_ErrMissingBoundary, ''http.ErrMissingBoundary'')]"

definition miscErrors :: "(pkgvar \<times> string) list" where
  "miscErrors =
    [(Bufio_ErrInvalidUnreadByte, ''bufio.ErrInvalidUnreadByte''),
     (Bufio_ErrInvalidUnreadRune, ''bufio.ErrInvalidUnreadRune''),
     (Bufio_ErrBufferFull, ''bufio.ErrBufferFull''),
     (Bufio_ErrNegativeCount, ''bufio.ErrNegativeCount''),
     (Bufio_ErrTooLong, ''bufio.ErrTooLong''),
     (Bufio_ErrNegativeAdvance, ''bufio.ErrNegativeAdvance''),
     (Bufio_ErrAdvanceTooFar, ''bufio.ErrAdvanceTooFar''),
     (Bufio_ErrFinalToken, ''bufio.ErrFinalToken''),
     (Http_ErrWriteAfterFlush, ''http.ErrWriteAfterFlush''),
     (Http_ErrBodyNotAllowed, ''http.ErrBodyNotAllowed''),
     (Http_ErrHijacked, ''http.ErrHijacked''),
     (Http_ErrContentLength, ''http.ErrContentLength''),
     (Http_ErrBodyReadAfterClose, ''http.ErrBodyReadAfterClose''),
     (Http_ErrHandlerTimeout, ''http.ErrHandlerTimeout''),
     (Http_ErrLineTooLong, ''http.ErrLineTooLong''),
     (Http_ErrMissingFile, ''http.ErrMissingFile''),
     (Http_ErrNoCookie, ''http.ErrNoCookie''),
     (Http_ErrNoLocation, ''http.ErrNoLocation''),
     (Http_ErrSkipAltProtocol, ''http.ErrSkipAltProtocol''),
     (Io_EOF, ''io.EOF''),
     (Io_ErrClosedPipe, ''io.ErrClosedPipe''),
     (Io_ErrNoProgress, ''io.ErrNoProgress''),
     (Io_ErrShortBuffer, ''io.ErrShortBuffer''),
     (Io_ErrShortWrite, ''io.ErrShortWrite''),
     (Io_ErrUnexpectedEOF, ''io.ErrUnexpectedEOF''),
     (Os_ErrInvalid, ''os.ErrInvalid''),
     (Os_ErrPermission, ''os.ErrPermission''),
     (Os_ErrExist, ''os.ErrExist''),
     (Os_ErrNotExist, ''os.ErrNotExist''),
     (Exec_ErrNotFound, ''exec.ErrNotFound''),
     (X509_ErrUnsupportedAlgorithm, ''x509.ErrUnsupportedAlgorithm''),
     (X509_IncorrectPasswordError, ''x509.IncorrectPasswordError''),
     (Hex_ErrLength, ''hex.ErrLength'')]"

text \<open>
  The access \<^verbatim>\<open>t, ok := miscErrors[err]\<close>. The run time hashes the key first and
  panics when the key's dynamic type cannot be hashed; a key is found only when it is the
  very pointer that one of the table's variables holds. Every shape but \<open>Other\<close> is a
  pointer or a comparable value type.
\<close>

definition hashable :: "shape \<Rightarrow> bool" where
  "hashable s = (case s of Other name net rt h \<Rightarrow> h | _ \<Rightarrow> True)"

definition miscErrors_access :: "goerr \<Rightarrow> panic + string option" where
  "miscErrors_access err =
    (case err of
       Nil \<Rightarrow> Inr None
     | Val s m \<Rightarrow>
         if \<not> hashable s then Inl (UnhashableKey (typeString s))
         else (case s of PkgVar v \<Rightarrow> Inr (map_of miscErrors v) | _ \<Rightarrow> Inr None))"

text \<open>\<^verbatim>\<open>name, ok := httpProtocolErrors[err]\<close> for \<^verbatim>\<open>err\<close> a
  \<^verbatim>\<open>*http.ProtocolError\<close> (a pointer, always hashable).\<close>

definition httpProtocolErrors_access :: "httpvar option \<Rightarrow> string option" where
  "httpProtocolErrors_access v =
    (case v of None \<Rightarrow> None | Some x \<Rightarrow> map_of httpProtocolErrors x)"

subsection \<open>The classifier\<close>

text \<open>\<^verbatim>\<open>hex.EncodeToString\<close> of the standard library: two lower-case digits a byte.\<close>

definition hextable :: string where
  "hextable = ''0123456789abcdef''"

definition hex_EncodeToString :: "8 word list \<Rightarrow> string" where
  "hex_EncodeToString src =
    concat (map (\<lambda>v. [hextable ! unat (drop_bit 4 v), hextable ! unat (v AND 0x0f)]) src)"

text \<open>The four results of \<^verbatim>\<open>parseError\<close>. \<open>extra\<close> is \<open>None\<close> for a nil map.\<close>

type_synonym extras = "string \<rightharpoonup> string"

record parsed =
  op :: string
  goType :: string
  desc :: string
  extra :: "extras option"

text \<open>
  The unwrapping at the head of the \<^verbatim>\<open>net.Error\<close> branch: when \<^verbatim>\<open>err\<close> is a
  \<^verbatim>\<open>*net.OpError\<close>, \<^verbatim>\<open>op\<close> and three extras are taken from it and \<^verbatim>\<open>err\<close>
  becomes its field \<^verbatim>\<open>Err\<close>; the read of \<^verbatim>\<open>opError.Op\<close> faults on a nil pointer.
  The result is the new \<^verbatim>\<open>op\<close>, \<^verbatim>\<open>extra\<close> and \<^verbatim>\<open>err\<close>.
\<close>

definition unwrapOpError :: "goerr \<Rightarrow> panic + string \<times> extras \<times> goerr" where
  "unwrapOpError err =
    (case err of
       Nil \<Rightarrow> Inr ([], Map.empty, err)
     | Val s m \<Rightarrow>
        (case s of
           NetOpError opErrorOp source addr net inner \<Rightarrow>
             (let extra1 = (case source of None \<Rightarrow> Map.empty
                            | Some src \<Rightarrow> [''localAddr'' \<mapsto> src]);
                  extra2 = (case addr of None \<Rightarrow> extra1
                            | Some a \<Rightarrow> extra1(''remoteAddr'' \<mapsto> a));
                  extra3 = extra2(''network'' \<mapsto> net)
              in Inr (opErrorOp, extra3, inner))
         | NilPtr t \<Rightarrow>
            (case t of
               P_NetOpError \<Rightarrow> Inl NilDereference
             | _ \<Rightarrow> Inr ([], Map.empty, err))
         | _ \<Rightarrow> Inr ([], Map.empty, err)))"

text \<open>The \<^verbatim>\<open>default\<close> case of the first two switches:
  \<^verbatim>\<open>goType = reflect.TypeOf(err).String(); desc = err.Error()\<close>.\<close>

definition typeNameFallback :: "string \<Rightarrow> extras \<Rightarrow> goerr \<Rightarrow> panic + parsed" where
  "typeNameFallback op0 extra0 err =
    (case reflectTypeString err of
       Inl p \<Rightarrow> Inl p
     | Inr t \<Rightarrow>
        (case callError err of
           Inl p \<Rightarrow> Inl p
         | Inr d \<Rightarrow> Inr \<lparr>op = op0, goType = t, desc = d, extra = Some extra0\<rparr>))"

text \<open>The cases of the form \<^verbatim>\<open>goType = k; desc = actual.Error()\<close>.\<close>

definition kindWithErrorText :: "string \<Rightarrow> extras \<Rightarrow> goerr \<Rightarrow> panic + parsed" where
  "kindWithErrorText k extra0 err =
    (case callError err of
       Inl p \<Rightarrow> Inl p
     | Inr d \<Rightarrow> Inr \<lparr>op = [], goType = k, desc = d, extra = Some extra0\<rparr>)"

text \<open>The type switch of the \<^verbatim>\<open>net.Error\<close> branch, on the unwrapped \<^verbatim>\<open>err\<close>. A case
  of a pointer type also takes the nil pointer of that type, and faults where it reads a
  field.\<close>

definition netSwitch :: "string \<Rightarrow> extras \<Rightarrow> goerr \<Rightarrow> panic + parsed" where
  "netSwitch op0 extra0 err =
    (case err of
       Nil \<Rightarrow> typeNameFallback op0 extra0 err
     | Val s m \<Rightarrow>
        (case s of
           NetAddrError actualErr actualAddr \<Rightarrow>
             Inr \<lparr>op = op0, goType = ''net.AddrError'', desc = actualErr,
                  extra = Some (extra0(''addr'' \<mapsto> actualAddr))\<rparr>
         | NetDNSError actualErr actualName actualServer \<Rightarrow>
             Inr \<lparr>op = op0, goType = ''net.DNSError'', desc = actualErr,
                  extra = Some (let extra1 = extra0(''domain'' \<mapsto> actualName)
                                in if actualServer \<noteq> [] then extra1(''dnsServer'' \<mapsto> actualServer)
                                   else extra1)\<rparr>
         | NetInvalidAddrError \<Rightarrow>
             (case callError err of
                Inl p \<Rightarrow> Inl p
              | Inr d \<Rightarrow>
                  Inr \<lparr>op = op0, goType = ''net.InvalidAddrError'', desc = d,
                       extra = Some extra0\<rparr>)
         | NetParseError actualType actualText \<Rightarrow>
             Inr \<lparr>op = op0, goType = ''net.ParseError'', desc = ''invalid '' @ actualType,
                  extra = Some (extra0(''textToParse'' \<mapsto> actualText))\<rparr>
         | NetUnknownNetworkError \<Rightarrow>
             Inr \<lparr>op = op0, goType = ''net.UnknownNetworkError'', desc = ''unknown network'',
                  extra = Some extra0\<rparr>
         | SyscallErrno \<Rightarrow>
             (case callError err of
                Inl p \<Rightarrow> Inl p
              | Inr d \<Rightarrow>
                  Inr \<lparr>op = op0, goType = ''syscall.Errno'', desc = d, extra = Some extra0\<rparr>)
         | UrlError actualOp actualURL actualErr \<Rightarrow>
             (case callError actualErr of
                Inl p \<Rightarrow> Inl p
              | Inr d \<Rightarrow>
                  Inr \<lparr>op = actualOp, goType = ''url.Error'', desc = d, extra = Some extra0\<rparr>)
         | NilPtr t \<Rightarrow>
            (case t of
               P_NetAddrError \<Rightarrow> Inl NilDereference
             | P_NetDNSError \<Rightarrow> Inl NilDereference
             | P_NetInvalidAddrError \<Rightarrow>
                 (case callError err of
                    Inl p \<Rightarrow> Inl p
                  | Inr d \<Rightarrow>
                      Inr \<lparr>op = op0, goType = ''net.InvalidAddrError'', desc = d,
                           extra = Some extra0\<rparr>)
             | P_NetParseError \<Rightarrow> Inl NilDereference
             | P_UrlError \<Rightarrow> Inl NilDereference
             | _ \<Rightarrow> typeNameFallback op0 extra0 err)
         | _ \<Rightarrow> typeNameFallback op0 extra0 err))"

text \<open>The \<^verbatim>\<open>runtime.Error\<close> branch: \<^verbatim>\<open>desc = err.Error()\<close>, then the switch.\<close>

definition runtimeSwitch :: "extras \<Rightarrow> goerr \<Rightarrow> panic + parsed" where
  "runtimeSwitch extra0 err =
    (case callError err of
       Inl p \<Rightarrow> Inl p
     | Inr d \<Rightarrow>
        (case err of
           Nil \<Rightarrow> Inl NilDereference
         | Val s m \<Rightarrow>
            (if s = RuntimeTypeAssertionError \<or> s = NilPtr P_RuntimeTypeAssertionError
             then Inr \<lparr>op = [], goType = ''runtime.TypeAssertionError'', desc = d,
                       extra = Some extra0\<rparr>
             else (case reflectTypeString err of
                     Inl p \<Rightarrow> Inl p
                   | Inr t \<Rightarrow> Inr \<lparr>op = [], goType = t, desc = d, extra = Some extra0\<rparr>))))"

text \<open>
  The \<^verbatim>\<open>default\<close> case of the last switch: \<^verbatim>\<open>desc = err.Error()\<close>, then the
  access to \<^verbatim>\<open>miscErrors\<close>, then the dynamic type's name.
\<close>

definition miscFallback :: "extras \<Rightarrow> goerr \<Rightarrow> panic + parsed" where
  "miscFallback extra0 err =
    (case callError err of
       Inl p \<Rightarrow> Inl p
     | Inr d \<Rightarrow>
        (case miscErrors_access err of
           Inl p \<Rightarrow> Inl p
         | Inr (Some t) \<Rightarrow> Inr \<lparr>op = [], goType = t, desc = d, extra = Some extra0\<rparr>
         | Inr None \<Rightarrow>
            (case reflectTypeString err of
               Inl p \<Rightarrow> Inl p
             | Inr t \<Rightarrow> Inr \<lparr>op = [], goType = t, desc = d, extra = Some extra0\<rparr>)))"

text \<open>The last type switch (\<^verbatim>\<open>// structs\<close>), case by case in the order of the
  source, and then the same cases for the nil pointers of the pointer types.\<close>

definition structSwitch :: "extras \<Rightarrow> goerr \<Rightarrow> panic + parsed" where
  "structSwitch extra0 err =
    (case err of
       Nil \<Rightarrow> miscFallback extra0 err
     | Val s m \<Rightarrow>
        (case s of
           HttpProtocolError v actualErrorString \<Rightarrow>
             (case httpProtocolErrors_access v of
                Some name \<Rightarrow>
                  Inr \<lparr>op = [], goType = name, desc = actualErrorString, extra = Some extra0\<rparr>
              | None \<Rightarrow>
                  Inr \<lparr>op = [], goType = ''http.ProtocolError'', desc = actualErrorString,
                       extra = Some extra0\<rparr>)
         | UrlEscapeError p \<Rightarrow>
             Inr \<lparr>op = [], goType = ''url.EscapeError'', desc = ''invalid URL escape'', extra = Some extra0\<rparr>
         | UrlInvalidHostError p \<Rightarrow>
             Inr \<lparr>op = [], goType = ''url.InvalidHostError'', desc = ''invalid character in host name'', extra = Some extra0\<rparr>
         | TextprotoError \<Rightarrow>
             kindWithErrorText ''textproto.Error'' extra0 err
         | TextprotoProtocolError p \<Rightarrow>
             kindWithErrorText ''textproto.ProtocolError'' extra0 err
         | TlsRecordHeaderError actualMsg actualRecordHeader \<Rightarrow>
             Inr \<lparr>op = [], goType = ''tls.RecordHeaderError'', desc = actualMsg,
                  extra = Some (extra0(''header'' \<mapsto> hex_EncodeToString actualRecordHeader))\<rparr>
         | X509CertificateInvalidError \<Rightarrow>
             kindWithErrorText ''x509.CertificateInvalidError'' extra0 err
         | X509ConstraintViolationError \<Rightarrow>
             kindWithErrorText ''x509.ConstraintViolationError'' extra0 err
         | X509HostnameError actualHost \<Rightarrow>
             (case callError err of
                Inl p \<Rightarrow> Inl p
              | Inr d \<Rightarrow>
                  Inr \<lparr>op = [], goType = ''x509.HostnameError'', desc = d,
                       extra = Some (extra0(''host'' \<mapsto> actualHost))\<rparr>)
         | X509InsecureAlgorithmError \<Rightarrow>
             kindWithErrorText ''x509.InsecureAlgorithmError'' extra0 err
         | X509SystemRootsError \<Rightarrow>
             kindWithErrorText ''x509.SystemRootsError'' extra0 err
         | X509UnhandledCriticalExtension \<Rightarrow>
             kindWithErrorText ''x509.UnhandledCriticalExtension'' extra0 err
         | X509UnknownAuthorityError \<Rightarrow>
             kindWithErrorText ''x509.UnknownAuthorityError'' extra0 err
         | HexInvalidByteError \<Rightarrow>
             Inr \<lparr>op = [], goType = ''hex.InvalidByteError'', desc = ''invalid byte'', extra = Some extra0\<rparr>
         | JsonInvalidUTF8Error \<Rightarrow>
             Inr \<lparr>op = [], goType = ''json.InvalidUTF8Error'', desc = ''invalid UTF-8 in string'', extra = Some extra0\<rparr>
         | JsonInvalidUnmarshalError \<Rightarrow>
             kindWithErrorText ''json.InvalidUnmarshalError'' extra0 err
         | JsonMarshalerError \<Rightarrow>
             kindWithErrorText ''json.MarshalerError'' extra0 err
         | JsonSyntaxError \<Rightarrow>
             kindWithErrorText ''json.SyntaxError'' extra0 err
         | JsonUnmarshalFieldError \<Rightarrow>
             kindWithErrorText ''json.UnmarshalFieldError'' extra0 err
         | JsonUnmarshalTypeError \<Rightarrow>
             kindWithErrorText ''json.UnmarshalTypeError'' extra0 err
         | JsonUnsupportedTypeError \<Rightarrow>
             kindWithErrorText ''json.UnsupportedTypeError'' extra0 err
         | JsonUnsupportedValueError \<Rightarrow>
             kindWithErrorText ''json.UnsupportedValueError'' extra0 err
         | OsLinkError \<Rightarrow>
             kindWithErrorText ''textproto.ProtocolError'' extra0 err
         | OsPathError actualOp actualPath actualErr \<Rightarrow>
             (case callError actualErr of
                Inl p \<Rightarrow> Inl p
              | Inr d \<Rightarrow>
                  Inr \<lparr>op = actualOp, goType = ''os.PathError'', desc = d,
                       extra = Some extra0\<rparr>)
         | OsSyscallError actualSyscall actualErr \<Rightarrow>
             (case callError actualErr of
                Inl p \<Rightarrow> Inl p
              | Inr d \<Rightarrow>
                  Inr \<lparr>op = actualSyscall, goType = ''os.SyscallError'', desc = d,
                       extra = Some extra0\<rparr>)
         | ExecError actualName actualErr \<Rightarrow>
             (case callError actualErr of
                Inl p \<Rightarrow> Inl p
              | Inr d \<Rightarrow>
                  Inr \<lparr>op = [], goType = ''exec.Error'', desc = d,
                       extra = Some extra0\<rparr>)
         | ExecExitError actualStderr \<Rightarrow>
             (case callError err of
                Inl p \<Rightarrow> Inl p
              | Inr d \<Rightarrow>
                  Inr \<lparr>op = [], goType = ''exec.ExitError'', desc = d,
                       extra = Some (extra0(''stderr'' \<mapsto> actualStderr))\<rparr>)
         | StrconvNumError actualFunc actualNum actualErr \<Rightarrow>
             (case callError actualErr of
                Inl p \<Rightarrow> Inl p
              | Inr d \<Rightarrow>
                  Inr \<lparr>op = [], goType = ''strconv.NumError'', desc = d,
                       extra = Some (extra0(''function'' \<mapsto> actualFunc))\<rparr>)
         | TimeParseError actualMessage \<Rightarrow>
             Inr \<lparr>op = [], goType = ''time.ParseError'', desc = actualMessage,
                  extra = Some extra0\<rparr>
         | NilPtr t \<Rightarrow>
            (case t of
                P_HttpProtocolError \<Rightarrow>
                  Inl NilDereference
              | P_UrlEscapeError \<Rightarrow>
                  Inr \<lparr>op = [], goType = ''url.EscapeError'', desc = ''invalid URL escape'', extra = Some extra0\<rparr>
              | P_UrlInvalidHostError \<Rightarrow>
                  Inr \<lparr>op = [], goType = ''url.InvalidHostError'', desc = ''invalid character in host name'', extra = Some extra0\<rparr>
              | P_TextprotoError \<Rightarrow>
                  kindWithErrorText ''textproto.Error'' extra0 err
              | P_TextprotoProtocolError \<Rightarrow>
                  kindWithErrorText ''textproto.ProtocolError'' extra0 err
              | P_JsonInvalidUTF8Error \<Rightarrow>
                  Inr \<lparr>op = [], goType = ''json.InvalidUTF8Error'', desc = ''invalid UTF-8 in string'', extra = Some extra0\<rparr>
              | P_JsonInvalidUnmarshalError \<Rightarrow>
                  kindWithErrorText ''json.InvalidUnmarshalError'' extra0 err
              | P_JsonMarshalerError \<Rightarrow>
                  kindWithErrorText ''json.MarshalerError'' extra0 err
              | P_JsonSyntaxError \<Rightarrow>
                  kindWithErrorText ''json.SyntaxError'' extra0 err
              | P_JsonUnmarshalFieldError \<Rightarrow>
                  kindWithErrorText ''json.UnmarshalFieldError'' extra0 err
              | P_JsonUnmarshalTypeError \<Rightarrow>
                  kindWithErrorText ''json.UnmarshalTypeError'' extra0 err
              | P_JsonUnsupportedTypeError \<Rightarrow>
                  kindWithErrorText ''json.UnsupportedTypeError'' extra0 err
              | P_JsonUnsupportedValueError \<Rightarrow>
                  kindWithErrorText ''json.UnsupportedValueError'' extra0 err
              | P_OsLinkError \<Rightarrow>
                  kindWithErrorText ''textproto.ProtocolError'' extra0 err
              | P_OsPathError \<Rightarrow>
                  Inl NilDereference
              | P_OsSyscallError \<Rightarrow>
                  Inl NilDereference
              | P_ExecError \<Rightarrow>
                  Inl NilDereference
              | P_ExecExitError \<Rightarrow>
                  (case callError err of Inl p \<Rightarrow> Inl p | Inr d \<Rightarrow> Inl NilDereference)
              | P_StrconvNumError \<Rightarrow>
                  Inl NilDereference
              | P_TimeParseError \<Rightarrow>
                  Inl NilDereference
              | _ \<Rightarrow> miscFallback extra0 err)
         | _ \<Rightarrow> miscFallback extra0 err))"

text \<open>
  \<^verbatim>\<open>func parseError(err error) (op string, goType string, desc string, extra map[string]string)\<close>.
  \<^verbatim>\<open>extra\<close> is made empty first; the three branches follow in the order of the source.
\<close>

definition parseError :: "goerr \<Rightarrow> panic + parsed" where
  "parseError err =
    (let extra0 = Map.empty in
     if implementsNetError err then
       (case unwrapOpError err of
          Inl p \<Rightarrow> Inl p
        | Inr (op1, extra1, err1) \<Rightarrow> netSwitch op1 extra1 err1)
     else if implementsRuntimeError err then runtimeSwitch extra0 err
     else structSwitch extra0 err)"

subsection \<open>Records of the package\<close>

type_synonym Op = string

definition OpDial :: Op where "OpDial = ''dial''"
definition OpRead :: Op where "OpRead = ''read''"
definition OpWrite :: Op where "OpWrite = ''write''"
definition OpClose :: Op where "OpClose = ''close''"

record systemInfo =
  OSType :: string
  OSVersion :: string
  OSArch :: string

record UserLocale =
  TimeZone :: string
  Language :: string
  Country :: string

type_synonym ProxyType = string

definition NoProxy :: ProxyType where "NoProxy = ''no''"
definition ChainedProxy :: ProxyType where "ChainedProxy = ''chained''"
definition FrontedProxy :: ProxyType where "FrontedProxy = ''fronted''"
definition DirectFrontedProxy :: ProxyType where "DirectFrontedProxy = ''DDF''"

record ProxyingInfo =
  ProxyType :: ProxyType
  LocalAddr :: string
  ProxyAddr :: string
  ProxyDC :: string
  OriginSite :: string
  Scheme :: string

record UserAgentInfo =
  UserAgent :: string

text \<open>
  The struct \<^verbatim>\<open>Error\<close> embeds four pointers. A pointer is \<open>None\<close> (nil) or the address
  of a cell of the store; the store is a list of cells, a cell's address is its index, and
  \<^verbatim>\<open>&T{...}\<close> appends a cell.
\<close>

type_synonym addr = nat
type_synonym ptr = "addr option"

datatype object =
    SystemInfoObj systemInfo
  | ProxyingInfoObj ProxyingInfo
  | UserLocaleObj UserLocale
  | UserAgentInfoObj UserAgentInfo

type_synonym store = "object list"

definition new :: "store \<Rightarrow> object \<Rightarrow> addr \<times> store" where
  "new h obj = (length h, h @ [obj])"

definition deref :: "store \<Rightarrow> ptr \<Rightarrow> object option" where
  "deref h p = (case p of None \<Rightarrow> None | Some a \<Rightarrow> if a < length h then Some (h ! a) else None)"

record Error =
  GoPackage :: string
  GoType :: string
  Desc :: string
  Op :: Op
  Extra :: "extras option"
  systemInfo :: ptr
  ProxyingInfo :: ptr
  UserLocale :: ptr
  UserAgentInfo :: ptr

text \<open>\<^verbatim>\<open>type ErrorCollector struct\<close>; the logger is known by the prefix it was made for.
  Its embedded \<^verbatim>\<open>*systemInfo\<close> is the field \<open>collectorInfo\<close>.\<close>

record ErrorCollector =
  goPackage :: string
  logger :: string
  collectorInfo :: ptr

subsection \<open>The environment\<close>

text \<open>
  What the package reads from outside itself: the constants of package \<^verbatim>\<open>runtime\<close>, the
  probes of \<^verbatim>\<open>osversion\<close> and \<^verbatim>\<open>jibber_jabber\<close> (their error results are dropped by
  the source), the zone name of the clock, and \<^verbatim>\<open>json.Marshal\<close> on an \<^verbatim>\<open>*Error\<close>,
  which returns the bytes (\<open>Inr\<close>) or a non-nil error, kept by its text (\<open>Inl\<close>).
\<close>

record env =
  runtime_GOOS :: string
  runtime_GOARCH :: string
  osversion_GetHumanReadable :: string
  DetectLanguage :: string
  DetectTerritory :: string
  time_Now_Format_MST :: string
  json_Marshal :: "store \<Rightarrow> Error \<Rightarrow> string + string"

subsection \<open>Reporters and the process state\<close>

text \<open>
  A value of the interface \<^verbatim>\<open>Reporter\<close>: nil, the package's \<^verbatim>\<open>StdReporter\<close>, or an
  implementation from outside the package, known by a number. The state of the process:
  the store, the variable \<^verbatim>\<open>currentReporter\<close>, the standard output, and the log of the
  calls of \<^verbatim>\<open>Report\<close> made so far (which reporter was called with which record).
\<close>

datatype reporter = NilReporter | StdReporter | CustomReporter nat

record world =
  heap :: store
  currentReporter :: reporter
  stdout :: "string list"
  reports :: "(reporter \<times> Error) list"

text \<open>\<^verbatim>\<open>var currentReporter Reporter = &StdReporter{}\<close>\<close>

definition initWorld :: world where
  "initWorld = \<lparr>heap = [], currentReporter = StdReporter, stdout = [], reports = []\<rparr>"

definition ReportTo :: "reporter \<Rightarrow> world \<Rightarrow> world" where
  "ReportTo r w = w\<lparr>currentReporter := r\<rparr>"

definition toJSON :: "env \<Rightarrow> store \<Rightarrow> Error \<Rightarrow> panic + string" where
  "toJSON env h e =
    (case json_Marshal env h e of
       Inl err \<Rightarrow> Inl (PanicMsg (''failed to convert error to json: '' @ err))
     | Inr b \<Rightarrow> Inr b)"

text \<open>\<^verbatim>\<open>func (l StdReporter) Report(e *Error)\<close> prints the JSON text.\<close>

definition StdReporter_Report :: "env \<Rightarrow> Error \<Rightarrow> world \<Rightarrow> panic option \<times> world" where
  "StdReporter_Report env e w =
    (case toJSON env (heap w) e of
       Inl p \<Rightarrow> (Some p, w)
     | Inr b \<Rightarrow> (None, w\<lparr>stdout := stdout w @ [b]\<rparr>))"

text \<open>
  The call \<^verbatim>\<open>currentReporter.Report(actual)\<close>, dispatched on the reporter: a nil
  interface faults; otherwise the call is logged and the implementation runs. An
  implementation from outside the package is taken to return and to leave the store and
  the variable \<^verbatim>\<open>currentReporter\<close> as they are.
\<close>

definition Report :: "env \<Rightarrow> reporter \<Rightarrow> Error \<Rightarrow> world \<Rightarrow> panic option \<times> world" where
  "Report env r e w =
    (case r of
       NilReporter \<Rightarrow> (Some NilDereference, w)
     | StdReporter \<Rightarrow> StdReporter_Report env e (w\<lparr>reports := reports w @ [(r, e)]\<rparr>)
     | CustomReporter n \<Rightarrow> (None, w\<lparr>reports := reports w @ [(r, e)]\<rparr>))"

subsection \<open>Decorators\<close>

text \<open>
  The closures returned by \<^verbatim>\<open>WithOp\<close>, \<^verbatim>\<open>WithProxy\<close>, \<^verbatim>\<open>WithLocale\<close> and
  \<^verbatim>\<open>WithUserAgent\<close>, and their application to the record under construction.
\<close>

datatype withFunc =
    WithOp Op
  | WithProxy ptr
  | WithLocale
  | WithUserAgent ptr

fun applyWith :: "env \<Rightarrow> withFunc \<Rightarrow> Error \<times> store \<Rightarrow> Error \<times> store" where
  "applyWith env (WithOp opn) (e, h) = (e\<lparr>Op := opn\<rparr>, h)"
| "applyWith env (WithProxy info) (e, h) = (e\<lparr>ProxyingInfo := info\<rparr>, h)"
| "applyWith env WithLocale (e, h) =
    (let lang = DetectLanguage env;
         country = DetectTerritory env;
         (a, h') = new h (UserLocaleObj
                      \<lparr>TimeZone = time_Now_Format_MST env, Language = lang, Country = country\<rparr>)
     in (e\<lparr>UserLocale := Some a\<rparr>, h'))"
| "applyWith env (WithUserAgent info) (e, h) = (e\<lparr>UserAgentInfo := info\<rparr>, h)"

text \<open>The loop \<^verbatim>\<open>for _, f := range with { f(actual) }\<close> of \<^verbatim>\<open>Log\<close>.\<close>

fun applyAll :: "env \<Rightarrow> withFunc list \<Rightarrow> Error \<times> store \<Rightarrow> Error \<times> store" where
  "applyAll env [] eh = eh"
| "applyAll env (f # fs) eh = applyAll env fs (applyWith env f eh)"

subsection \<open>The collector\<close>

text \<open>\<^verbatim>\<open>func NewErrorCollector(goPackage string) *ErrorCollector\<close>\<close>

definition NewErrorCollector :: "env \<Rightarrow> string \<Rightarrow> world \<Rightarrow> ErrorCollector \<times> world" where
  "NewErrorCollector env pkg w =
    (let version = osversion_GetHumanReadable env;
         (a, h') = new (heap w) (SystemInfoObj
                      \<lparr>OSType = runtime_GOOS env, OSVersion = version, OSArch = runtime_GOARCH env\<rparr>)
     in (\<lparr>goPackage = pkg, logger = pkg, collectorInfo = Some a\<rparr>, w\<lparr>heap := h'\<rparr>))"

text \<open>
  \<^verbatim>\<open>func (c *ErrorCollector) Log(err error, with ...withFunc)\<close>, for a collector made
  by \<^verbatim>\<open>NewErrorCollector\<close>. The result is the panic that ends the call, if any, and the
  state at that point.
\<close>

definition Log ::
  "env \<Rightarrow> ErrorCollector \<Rightarrow> goerr \<Rightarrow> withFunc list \<Rightarrow> world \<Rightarrow> panic option \<times> world" where
  "Log env c err withs w =
    (case parseError err of
       Inl p \<Rightarrow> (Some p, w)
     | Inr r \<Rightarrow>
        (let actual = \<lparr>GoPackage = goPackage c, GoType = goType r, Desc = desc r, Op = op r,
                       Extra = extra r, systemInfo = collectorInfo c, ProxyingInfo = None,
                       UserLocale = None, UserAgentInfo = None\<rparr>;
             (actual', h') = applyAll env withs (actual, heap w)
         in Report env (currentReporter w) actual' (w\<lparr>heap := h'\<rparr>)))"

subsection \<open>Sequences of calls\<close>

text \<open>A caller's calls into the package, run one after the other; a caller that recovers
  from a panic of \<^verbatim>\<open>Log\<close> goes on from the state the panic left.\<close>

datatype call =
    ReportToCall reporter
  | LogCall ErrorCollector goerr "withFunc list"

fun step :: "env \<Rightarrow> world \<Rightarrow> call \<Rightarrow> world" where
  "step env w (ReportToCall r) = ReportTo r w"
| "step env w (LogCall c err withs) = snd (Log env c err withs w)"

definition run :: "env \<Rightarrow> call list \<Rightarrow> world \<Rightarrow> world" where
  "run env calls w = foldl (step env) w calls"

subsection \<open>Predicates used in the statements\<close>

text \<open>
  When \<^verbatim>\<open>parseError\<close> returns. \<open>errorReturns err\<close>: \<^verbatim>\<open>err\<close> is not nil and its
  \<^verbatim>\<open>Error()\<close> returns. \<open>netClassifiable err\<close>, for the error the switch of the
  \<^verbatim>\<open>net.Error\<close> branch looks at: it is not nil, it is not a nil pointer of a type whose
  case reads a field, and the \<^verbatim>\<open>Error()\<close> that its case calls returns (its own, or
  the one of the \<^verbatim>\<open>Err\<close> of a \<^verbatim>\<open>*url.Error\<close>). \<open>structClassifiable err\<close>, the same
  for the last switch, where moreover a value that reaches the access to \<^verbatim>\<open>miscErrors\<close>
  can be hashed. \<open>classifiable err\<close>: the condition of the branch that \<^verbatim>\<open>err\<close> takes;
  a \<^verbatim>\<open>*net.OpError\<close> is not a nil pointer, and the condition is on its \<^verbatim>\<open>Err\<close>.
\<close>

definition errorReturns :: "goerr \<Rightarrow> bool" where
  "errorReturns err = (case callError err of Inl p \<Rightarrow> False | Inr d \<Rightarrow> True)"

definition netClassifiable :: "goerr \<Rightarrow> bool" where
  "netClassifiable err =
    (case err of
       Nil \<Rightarrow> False
     | Val s m \<Rightarrow>
        (case s of
           NetAddrError e a \<Rightarrow> True
         | NetDNSError e n srv \<Rightarrow> True
         | NetParseError t txt \<Rightarrow> True
         | NetUnknownNetworkError \<Rightarrow> True
         | UrlError opn u inner \<Rightarrow> errorReturns inner
         | NilPtr t \<Rightarrow>
            (case t of
               P_NetAddrError \<Rightarrow> False
             | P_NetDNSError \<Rightarrow> False
             | P_NetParseError \<Rightarrow> False
             | P_UrlError \<Rightarrow> False
             | _ \<Rightarrow> errorReturns err)
         | _ \<Rightarrow> errorReturns err))"

definition structClassifiable :: "goerr \<Rightarrow> bool" where
  "structClassifiable err =
    (case err of
       Nil \<Rightarrow> False
     | Val s m \<Rightarrow>
        (case s of
           HttpProtocolError v es \<Rightarrow> True
         | UrlEscapeError p \<Rightarrow> True
         | UrlInvalidHostError p \<Rightarrow> True
         | TlsRecordHeaderError msg hdr \<Rightarrow> True
         | HexInvalidByteError \<Rightarrow> True
         | JsonInvalidUTF8Error \<Rightarrow> True
         | TimeParseError msg \<Rightarrow> True
         | OsPathError opn path inner \<Rightarrow> errorReturns inner
         | OsSyscallError sc inner \<Rightarrow> errorReturns inner
         | ExecError n inner \<Rightarrow> errorReturns inner
         | StrconvNumError f n inner \<Rightarrow> errorReturns inner
         | NilPtr t \<Rightarrow>
            (case t of
               P_UrlEscapeError \<Rightarrow> True
             | P_UrlInvalidHostError \<Rightarrow> True
             | P_JsonInvalidUTF8Error \<Rightarrow> True
             | P_HttpProtocolError \<Rightarrow> False
             | P_OsPathError \<Rightarrow> False
             | P_OsSyscallError \<Rightarrow> False
             | P_ExecError \<Rightarrow> False
             | P_ExecExitError \<Rightarrow> False
             | P_StrconvNumError \<Rightarrow> False
             | P_TimeParseError \<Rightarrow> False
             | _ \<Rightarrow> errorReturns err)
         | Other name net rt h \<Rightarrow> errorReturns err \<and> h
         | _ \<Rightarrow> errorReturns err))"

definition classifiable :: "goerr \<Rightarrow> bool" where
  "classifiable err =
    (if implementsNetError err then
       (case err of
          Nil \<Rightarrow> False
        | Val s m \<Rightarrow>
           (case s of
              NetOpError opn src addr net inner \<Rightarrow> netClassifiable inner
            | NilPtr t \<Rightarrow> (case t of P_NetOpError \<Rightarrow> False | _ \<Rightarrow> netClassifiable err)
            | _ \<Rightarrow> netClassifiable err))
     else if implementsRuntimeError err then errorReturns err
     else structClassifiable err)"

text \<open>\<open>typeNamed err\<close>: the dynamic type of \<^verbatim>\<open>err\<close>, and of the error a
  \<^verbatim>\<open>*net.OpError\<close> wraps, has a name that is not the empty string, as every Go type
  has.\<close>

definition typeNamed :: "goerr \<Rightarrow> bool" where
  "typeNamed err =
    (case err of
       Nil \<Rightarrow> True
     | Val s m \<Rightarrow>
        typeString s \<noteq> [] \<and>
        (case s of
           NetOpError opn src addr net inner \<Rightarrow>
             (case inner of Nil \<Rightarrow> True | Val s' m' \<Rightarrow> typeString s' \<noteq> [])
         | _ \<Rightarrow> True))"

text \<open>\<open>built env c r withs h\<close>: the record that \<^verbatim>\<open>Log\<close> has built when it calls
  \<^verbatim>\<open>Report\<close> (the struct literal, then the decorators in order), and the store then.\<close>

definition built :: "env \<Rightarrow> ErrorCollector \<Rightarrow> parsed \<Rightarrow> withFunc list \<Rightarrow> store \<Rightarrow> Error \<times> store" where
  "built env c r withs h =
    applyAll env withs
      (\<lparr>GoPackage = goPackage c, GoType = goType r, Desc = desc r, Op = op r,
        Extra = extra r, systemInfo = collectorInfo c, ProxyingInfo = None,
        UserLocale = None, UserAgentInfo = None\<rparr>, h)"

definition isWithOp :: "withFunc \<Rightarrow> bool" where
  "isWithOp f = (case f of WithOp opn \<Rightarrow> True | _ \<Rightarrow> False)"

definition isWithProxy :: "withFunc \<Rightarrow> bool" where
  "isWithProxy f = (case f of WithProxy info \<Rightarrow> True | _ \<Rightarrow> False)"

definition isWithUserAgent :: "withFunc \<Rightarrow> bool" where
  "isWithUserAgent f = (case f of WithUserAgent info \<Rightarrow> True | _ \<Rightarrow> False)"

definition isLogCall :: "call \<Rightarrow> bool" where
  "isLogCall k = (case k of LogCall c err withs \<Rightarrow> True | _ \<Rightarrow> False)"

text \<open>\<open>classifies k\<close>: the call is a \<^verbatim>\<open>Log\<close> whose \<^verbatim>\<open>parseError\<close> returns;
  \<open>classified k\<close> is then the Kind and Description it returns.\<close>

definition classifies :: "call \<Rightarrow> bool" where
  "classifies k =
    (case k of
       LogCall c err withs \<Rightarrow> (case parseError err of Inl p \<Rightarrow> False | Inr r \<Rightarrow> True)
     | _ \<Rightarrow> False)"

definition classified :: "call \<Rightarrow> string \<times> string" where
  "classified k =
    (case k of
       LogCall c err withs \<Rightarrow>
         (case parseError err of Inl p \<Rightarrow> ([], []) | Inr r \<Rightarrow> (goType r, desc r))
     | _ \<Rightarrow> ([], []))"

text \<open>Two environments for the closed instances below: in the first
  \<^verbatim>\<open>json.Marshal\<close> succeeds on every record, in the second it fails on every record.\<close>

definition sampleEnv :: env where
  "sampleEnv =
    \<lparr>runtime_GOOS = ''linux'', runtime_GOARCH = ''amd64'',
     osversion_GetHumanReadable = ''Ubuntu 14.04'',
     DetectLanguage = ''en'', DetectTerritory = ''US'', time_Now_Format_MST = ''UTC'',
     json_Marshal = (\<lambda>h e. Inr (GoPackage e @ '' '' @ GoType e @ '' '' @ Desc e))\<rparr>"

definition failingMarshalEnv :: env where
  "failingMarshalEnv = sampleEnv\<lparr>json_Marshal := (\<lambda>h e. Inl ''json: unsupported value'')\<rparr>"

text \<open>The collector that \<^verbatim>\<open>NewErrorCollector("flashlight")\<close> returns in the initial
  state, and the state it leaves.\<close>

definition sampleCollector :: ErrorCollector where
  "sampleCollector = fst (NewErrorCollector sampleEnv ''flashlight'' initWorld)"

definition sampleWorld :: world where
  "sampleWorld = snd (NewErrorCollector sampleEnv ''flashlight'' initWorld)"

text \<open>A caller's \<^verbatim>\<open>ProxyingInfo\<close> block, and the state after the caller has allocated
  it: the block is the cell at address 1.\<close>

definition sampleProxy :: ProxyingInfo where
  "sampleProxy =
    \<lparr>ProxyType = ChainedProxy, LocalAddr = ''127.0.0.1:8787'', ProxyAddr = ''10.0.0.9:443'',
     ProxyDC = ''fra1'', OriginSite = ''example.com'', Scheme = ''https''\<rparr>"

definition proxyWorld :: world where
  "proxyWorld = sampleWorld\<lparr>heap := heap sampleWorld @ [ProxyingInfoObj sampleProxy]\<rparr>"

section \<open>Properties of the classifier\<close>

lemmas parseError_defs =
  parseError_def implementsNetError_def implementsRuntimeError_def unwrapOpError_def
  netSwitch_def runtimeSwitch_def structSwitch_def miscFallback_def typeNameFallback_def
  kindWithErrorText_def miscErrors_access_def hashable_def typeString_def ptrTypeString_def
  httpProtocolErrors_access_def

lemma parseError_Nil: "parseError Nil = Inl NilDereference"
  by (simp add: parseError_defs)

text \<open>When each switch returns: case analysis on the shape and, for a nil pointer, on its
  type.\<close>

lemma typeNameFallback_Inr_iff:
  "(\<exists>r. typeNameFallback o1 x err = Inr r) = errorReturns err"
  by (cases err) (auto simp: typeNameFallback_def errorReturns_def split: sum.splits)

lemma kindWithErrorText_Inr_iff:
  "(\<exists>r. kindWithErrorText k x err = Inr r) = errorReturns err"
  by (auto simp: kindWithErrorText_def errorReturns_def split: sum.splits)

lemma netSwitch_Inr_iff: "(\<exists>r. netSwitch o1 x err = Inr r) = netClassifiable err"
proof (cases err)
  case Nil
  then show ?thesis
    by (simp add: netSwitch_def netClassifiable_def typeNameFallback_def)
next
  case outer: (Val s m)
  show ?thesis
  proof (cases s)
    case (NilPtr t)
    then show ?thesis using outer typeNameFallback_Inr_iff[of o1 x err]
      by (cases t) (auto simp: netSwitch_def netClassifiable_def errorReturns_def split: sum.splits)
  next
    case (UrlError opn u inner)
    then show ?thesis using outer
      by (auto simp: netSwitch_def netClassifiable_def errorReturns_def split: sum.splits)
  qed (use outer typeNameFallback_Inr_iff[of o1 x err] in
        \<open>auto simp: netSwitch_def netClassifiable_def errorReturns_def split: sum.splits\<close>)
qed

lemma runtimeSwitch_Inr_iff: "(\<exists>r. runtimeSwitch x err = Inr r) = errorReturns err"
  by (cases err) (auto simp: runtimeSwitch_def errorReturns_def split: sum.splits)

lemma miscFallback_Inr_iff:
  "(\<exists>r. miscFallback x err = Inr r) =
     (errorReturns err \<and> (case err of Nil \<Rightarrow> True | Val s m \<Rightarrow> hashable s))"
  by (cases err)
     (auto simp: miscFallback_def miscErrors_access_def errorReturns_def
        split: sum.splits option.splits shape.splits)

lemma structSwitch_Inr_iff: "(\<exists>r. structSwitch x err = Inr r) = structClassifiable err"
proof (cases err)
  case Nil
  then show ?thesis
    by (simp add: structSwitch_def structClassifiable_def miscFallback_def)
next
  case outer: (Val s m)
  note fb = miscFallback_Inr_iff[of x err] kindWithErrorText_Inr_iff[of _ x err]
  show ?thesis
  proof (cases s)
    case (NilPtr t)
    then show ?thesis using outer fb
      by (cases t)
         (auto simp: structSwitch_def structClassifiable_def errorReturns_def hashable_def
            split: sum.splits)
  qed (use outer fb in
        \<open>auto simp: structSwitch_def structClassifiable_def errorReturns_def hashable_def
           split: sum.splits option.splits\<close>)
qed

lemma parseError_Inr_iff: "(\<exists>r. parseError err = Inr r) = classifiable err"
proof (cases "implementsNetError err")
  case False
  then show ?thesis
    by (simp add: parseError_def classifiable_def runtimeSwitch_Inr_iff structSwitch_Inr_iff)
next
  case net: True
  show ?thesis
  proof (cases err)
    case Nil
    then show ?thesis using net by (simp add: implementsNetError_def)
  next
    case outer: (Val s m)
    show ?thesis
    proof (cases s)
      case (NilPtr t)
      then show ?thesis using outer net netSwitch_Inr_iff[of "[]" Map.empty err]
        by (cases t) (simp_all add: parseError_def classifiable_def unwrapOpError_def)
    next
      case (NetOpError opn src addr nw inner)
      then show ?thesis using outer net netSwitch_Inr_iff[of opn _ inner]
        by (simp add: parseError_def classifiable_def unwrapOpError_def Let_def)
    qed (use outer net netSwitch_Inr_iff[of "[]" Map.empty err] in
          \<open>simp_all add: parseError_def classifiable_def unwrapOpError_def\<close>)
  qed
qed

text \<open>Every branch returns the map made at the head of the function.\<close>

lemma typeNameFallback_extra: "typeNameFallback o1 x err = Inr r \<Longrightarrow> extra r \<noteq> None"
  by (auto simp: typeNameFallback_def split: sum.splits)

lemma kindWithErrorText_extra: "kindWithErrorText k x err = Inr r \<Longrightarrow> extra r \<noteq> None"
  by (auto simp: kindWithErrorText_def split: sum.splits)

lemma netSwitch_extra: "netSwitch o1 x err = Inr r \<Longrightarrow> extra r \<noteq> None"
  by (auto simp: netSwitch_def dest: typeNameFallback_extra
      split: goerr.splits shape.splits ptrtype.splits sum.splits)

lemma runtimeSwitch_extra: "runtimeSwitch x err = Inr r \<Longrightarrow> extra r \<noteq> None"
  by (auto simp: runtimeSwitch_def split: goerr.splits sum.splits if_splits)

lemma miscFallback_extra: "miscFallback x err = Inr r \<Longrightarrow> extra r \<noteq> None"
  by (auto simp: miscFallback_def split: sum.splits option.splits)

lemma structSwitch_extra: "structSwitch x err = Inr r \<Longrightarrow> extra r \<noteq> None"
  by (auto simp: structSwitch_def dest: miscFallback_extra kindWithErrorText_extra
      split: goerr.splits shape.splits ptrtype.splits sum.splits option.splits)

lemma parseError_extra: "parseError err = Inr r \<Longrightarrow> extra r \<noteq> None"
  by (auto simp: parseError_def Let_def
      dest: netSwitch_extra runtimeSwitch_extra structSwitch_extra
      split: if_splits prod.splits sum.splits)

lemma Log_Nil: "Log env c Nil withs w = (Some NilDereference, w)"
  by (simp add: Log_def parseError_Nil)

text \<open>
  C1. Every shape of the structured category should get a Kind of its own; in particular
  an OS link error and a textproto protocol error should never share one. The case
  \<^verbatim>\<open>*os.LinkError\<close> of the source assigns \<^verbatim>\<open>"textproto.ProtocolError"\<close>: evaluated
  on a link error and on a textproto protocol error, \<^verbatim>\<open>parseError\<close> returns the same
  Kind.
\<close>

theorem parseError_LinkError_kind:
  "parseError (Val OsLinkError (Inr m)) =
     Inr \<lparr>op = [], goType = ''textproto.ProtocolError'', desc = m, extra = Some Map.empty\<rparr>
   \<and> parseError (Val (TextprotoProtocolError p) (Inr m')) =
     Inr \<lparr>op = [], goType = ''textproto.ProtocolError'', desc = m', extra = Some Map.empty\<rparr>"
  by (simp add: parseError_defs)

text \<open>
  C4, as amended. For every variable of the sentinel table, \<^verbatim>\<open>parseError\<close> on the
  variable's value itself returns the Kind the table gives for it, which is not the name
  of its dynamic type, with the value's message as Description. When the same value is the
  \<^verbatim>\<open>Err\<close> of a \<^verbatim>\<open>*net.OpError\<close>, the \<^verbatim>\<open>net.Error\<close> branch returns the name of its
  dynamic type, \<^verbatim>\<open>*errors.errorString\<close>, and the table is not consulted.
\<close>

theorem parseError_sentinel_kind:
  "(\<exists>k. map_of miscErrors v = Some k \<and> k \<noteq> typeString (PkgVar v) \<and>
        parseError (Val (PkgVar v) (Inr m)) =
          Inr \<lparr>op = [], goType = k, desc = m, extra = Some Map.empty\<rparr>)
   \<and> (\<exists>x. parseError (Val (NetOpError wop src addr net (Val (PkgVar v) (Inr m))) m') =
          Inr \<lparr>op = wop, goType = ''*errors.errorString'', desc = m, extra = Some x\<rparr>)"
proof
  show "\<exists>k. map_of miscErrors v = Some k \<and> k \<noteq> typeString (PkgVar v) \<and>
        parseError (Val (PkgVar v) (Inr m)) =
          Inr \<lparr>op = [], goType = k, desc = m, extra = Some Map.empty\<rparr>"
    by (cases v) (simp_all add: parseError_defs miscErrors_def)
  show "\<exists>x. parseError (Val (NetOpError wop src addr net (Val (PkgVar v) (Inr m))) m') =
          Inr \<lparr>op = wop, goType = ''*errors.errorString'', desc = m, extra = Some x\<rparr>"
    by (simp add: parseError_defs Let_def)
qed

text \<open>The claim as stated fails: \<^verbatim>\<open>io.EOF\<close> inside a \<^verbatim>\<open>*net.OpError\<close> is not given
  the Kind \<^verbatim>\<open>io.EOF\<close>.\<close>

theorem parseError_wrapped_EOF_kind:
  "parseError (Val (NetOpError ''read'' None None ''tcp'' (Val (PkgVar Io_EOF) (Inr ''EOF'')))
                 (Inr ''read tcp: EOF'')) =
     Inr \<lparr>op = ''read'', goType = ''*errors.errorString'', desc = ''EOF'',
          extra = Some [''network'' \<mapsto> ''tcp'']\<rparr>"
  by (simp add: parseError_defs)

text \<open>
  C6. When \<^verbatim>\<open>parseError\<close> classifies a \<^verbatim>\<open>*url.Error\<close> (its \<^verbatim>\<open>Err\<close> has a
  message \<open>d\<close>), the Kind is \<^verbatim>\<open>url.Error\<close> and the Operation is the URL error's own
  \<^verbatim>\<open>Op\<close>; when the URL error is the \<^verbatim>\<open>Err\<close> of a \<^verbatim>\<open>*net.OpError\<close>, the Operation
  is still the URL error's \<^verbatim>\<open>Op\<close>, not the wrapper's.
\<close>

theorem parseError_url_operation:
  assumes "callError inner = Inr d"
  shows "parseError (Val (UrlError uop url inner) m) =
           Inr \<lparr>op = uop, goType = ''url.Error'', desc = d, extra = Some Map.empty\<rparr>
    \<and> (\<exists>x. parseError (Val (NetOpError wop src addr net (Val (UrlError uop url inner) m)) m') =
           Inr \<lparr>op = uop, goType = ''url.Error'', desc = d, extra = Some x\<rparr>)"
  using assms by (simp add: parseError_defs Let_def)

theorem parseError_url_operation_witness:
  "parseError (Val (UrlError ''Get'' ''http://a.example/''
                    (Val (Other ''*errors.errorString'' False False True)
                         (Inr ''connection refused'')))
                 (Inr ''Get http://a.example/: connection refused'')) =
     Inr \<lparr>op = ''Get'', goType = ''url.Error'', desc = ''connection refused'',
          extra = Some Map.empty\<rparr>
   \<and> (\<exists>x. parseError (Val (NetOpError ''dial'' None (Some ''10.0.0.1:80'') ''tcp''
                 (Val (UrlError ''Get'' ''http://a.example/''
                    (Val (Other ''*errors.errorString'' False False True)
                         (Inr ''connection refused'')))
                 (Inr ''Get http://a.example/: connection refused'')))
                 (Inr ''dial tcp 10.0.0.1:80: Get http://a.example/: connection refused'')) =
     Inr \<lparr>op = ''Get'', goType = ''url.Error'', desc = ''connection refused'', extra = Some x\<rparr>)"
  by (rule parseError_url_operation) simp

text \<open>
  C10, as amended. \<^verbatim>\<open>parseError\<close> returns exactly on the classifiable errors, and
  then with a non-nil map. The error that the switches look at is \<^verbatim>\<open>err\<close>, or the
  \<^verbatim>\<open>Err\<close> of \<^verbatim>\<open>err\<close> when that is a \<^verbatim>\<open>*net.OpError\<close> (which must not be a nil
  pointer). It is classifiable when it is not nil; the case it matches does not read a
  field through a nil pointer; every \<^verbatim>\<open>Error()\<close> that the matched case calls returns
  instead of panicking, on the error itself or on its wrapped \<^verbatim>\<open>Err\<close>, which is then
  not nil; and a value that reaches the access to \<^verbatim>\<open>miscErrors\<close> can be hashed. On
  nil \<^verbatim>\<open>parseError\<close> faults, and so does \<^verbatim>\<open>Log\<close>.
\<close>

theorem parseError_returns_iff_classifiable:
  "((\<exists>r. parseError err = Inr r \<and> extra r \<noteq> None) = classifiable err)
   \<and> parseError Nil = Inl NilDereference
   \<and> fst (Log env c Nil withs w) = Some NilDereference"
proof -
  have "(\<exists>r. parseError err = Inr r \<and> extra r \<noteq> None) = (\<exists>r. parseError err = Inr r)"
    using parseError_extra by blast
  then show ?thesis
    by (simp add: parseError_Inr_iff parseError_Nil Log_Nil)
qed

lemmas classifiable_defs =
  classifiable_def netClassifiable_def structClassifiable_def errorReturns_def
  implementsNetError_def implementsRuntimeError_def

theorem parseError_returns_iff_classifiable_witness:
  "\<exists>r. parseError (Val (NetOpError ''dial'' None (Some ''10.0.0.1:80'') ''tcp''
                         (Val (OsSyscallError ''connect''
                                 (Val SyscallErrno (Inr ''connection refused'')))
                              (Inr ''connect: connection refused'')))
                     (Inr ''dial tcp 10.0.0.1:80: connect: connection refused'')) = Inr r
       \<and> extra r \<noteq> None"
  using parseError_returns_iff_classifiable
          [of "Val (NetOpError ''dial'' None (Some ''10.0.0.1:80'') ''tcp''
                         (Val (OsSyscallError ''connect''
                                 (Val SyscallErrno (Inr ''connection refused'')))
                              (Inr ''connect: connection refused'')))
                     (Inr ''dial tcp 10.0.0.1:80: connect: connection refused'')"]
  by (simp add: classifiable_defs)

text \<open>The claim as stated fails on errors that are not nil: a \<^verbatim>\<open>*net.OpError\<close> whose
  \<^verbatim>\<open>Err\<close> is nil; a value of a slice type (here \<^verbatim>\<open>scanner.ErrorList\<close>), which
  cannot be hashed; a \<^verbatim>\<open>*os.LinkError\<close> whose \<^verbatim>\<open>Err\<close> is nil, so that its
  \<^verbatim>\<open>Error()\<close> panics; and the nil pointer of type \<^verbatim>\<open>*os.PathError\<close>.\<close>

theorem parseError_nonnil_panics:
  "parseError (Val (NetOpError ''dial'' None None ''tcp'' Nil) (Inl NilDereference))
     = Inl NilDereference
   \<and> parseError (Val (Other ''scanner.ErrorList'' False False False)
                   (Inr ''a.go:1:1: expected operand (and 1 more errors)'')) =
       Inl (UnhashableKey ''scanner.ErrorList'')
   \<and> parseError (Val OsLinkError (Inl NilDereference)) = Inl NilDereference
   \<and> parseError (Val (NilPtr P_OsPathError) (Inl NilDereference)) = Inl NilDereference"
  by (simp add: parseError_defs)

section \<open>Properties of the collector and the reporter\<close>

lemma new_eq: "new h obj = (length h, h @ [obj])"
  by (simp add: new_def)

lemma applyAll_append: "applyAll env (xs @ ys) eh = applyAll env ys (applyAll env xs eh)"
  by (induction xs arbitrary: eh) simp_all

lemma applyAll_snoc: "applyAll env (xs @ [f]) eh = applyWith env f (applyAll env xs eh)"
  by (simp add: applyAll_append)

lemma applyWith_fixed:
  "GoPackage (fst (applyWith env f eh)) = GoPackage (fst eh)
   \<and> GoType (fst (applyWith env f eh)) = GoType (fst eh)
   \<and> Desc (fst (applyWith env f eh)) = Desc (fst eh)
   \<and> Extra (fst (applyWith env f eh)) = Extra (fst eh)
   \<and> systemInfo (fst (applyWith env f eh)) = systemInfo (fst eh)"
  by (cases f; cases eh) (simp_all add: new_eq)

lemma applyAll_fixed:
  "GoPackage (fst (applyAll env fs eh)) = GoPackage (fst eh)
   \<and> GoType (fst (applyAll env fs eh)) = GoType (fst eh)
   \<and> Desc (fst (applyAll env fs eh)) = Desc (fst eh)
   \<and> Extra (fst (applyAll env fs eh)) = Extra (fst eh)
   \<and> systemInfo (fst (applyAll env fs eh)) = systemInfo (fst eh)"
  by (induction fs arbitrary: eh) (simp_all add: applyWith_fixed)

lemma applyWith_store: "\<exists>xs. snd (applyWith env f eh) = snd eh @ xs"
  by (cases f; cases eh) (simp_all add: new_eq)

lemma applyAll_store: "\<exists>xs. snd (applyAll env fs eh) = snd eh @ xs"
proof (induction fs arbitrary: eh)
  case Nil
  show ?case by simp
next
  case (Cons f fs)
  obtain xs where 1: "snd (applyWith env f eh) = snd eh @ xs"
    using applyWith_store by blast
  obtain ys where 2: "snd (applyAll env fs (applyWith env f eh)) = snd (applyWith env f eh) @ ys"
    using Cons.IH by blast
  show ?case using 1 2 by simp
qed

lemma applyAll_Op_kept:
  "\<forall>f \<in> set fs. \<not> isWithOp f \<Longrightarrow> Op (fst (applyAll env fs eh)) = Op (fst eh)"
proof (induction fs arbitrary: eh)
  case Nil
  show ?case by simp
next
  case (Cons f fs)
  have "Op (fst (applyWith env f eh)) = Op (fst eh)"
    using Cons.prems by (cases f; cases eh) (simp_all add: new_eq isWithOp_def)
  then show ?case using Cons by simp
qed

lemma applyAll_Proxy_kept:
  "\<forall>f \<in> set fs. \<not> isWithProxy f \<Longrightarrow> ProxyingInfo (fst (applyAll env fs eh)) = ProxyingInfo (fst eh)"
proof (induction fs arbitrary: eh)
  case Nil
  show ?case by simp
next
  case (Cons f fs)
  have "ProxyingInfo (fst (applyWith env f eh)) = ProxyingInfo (fst eh)"
    using Cons.prems by (cases f; cases eh) (simp_all add: new_eq isWithProxy_def)
  then show ?case using Cons by simp
qed

lemma applyAll_UserAgent_kept:
  "\<forall>f \<in> set fs. \<not> isWithUserAgent f \<Longrightarrow> UserAgentInfo (fst (applyAll env fs eh)) = UserAgentInfo (fst eh)"
proof (induction fs arbitrary: eh)
  case Nil
  show ?case by simp
next
  case (Cons f fs)
  have "UserAgentInfo (fst (applyWith env f eh)) = UserAgentInfo (fst eh)"
    using Cons.prems by (cases f; cases eh) (simp_all add: new_eq isWithUserAgent_def)
  then show ?case using Cons by simp
qed

lemma applyAll_Locale:
  "(WithLocale \<notin> set fs \<and> UserLocale (fst (applyAll env fs eh)) = UserLocale (fst eh))
   \<or> (WithLocale \<in> set fs \<and> (\<exists>a. UserLocale (fst (applyAll env fs eh)) = Some a
          \<and> length (snd eh) \<le> a \<and> a < length (snd (applyAll env fs eh))
          \<and> snd (applyAll env fs eh) ! a = UserLocaleObj
               \<lparr>TimeZone = time_Now_Format_MST env, Language = DetectLanguage env,
                Country = DetectTerritory env\<rparr>))"
proof (induction fs rule: rev_induct)
  case Nil
  show ?case by simp
next
  case (snoc f fs)
  obtain e h where eh: "applyAll env fs eh = (e, h)" by (cases "applyAll env fs eh")
  obtain xs where h: "h = snd eh @ xs" using applyAll_store[of env fs eh] eh by auto
  show ?case
  proof (cases f)
    case WithLocale
    then show ?thesis using eh h by (simp add: applyAll_snoc new_eq)
  next
    case (WithOp x)
    then show ?thesis using snoc eh h by (auto simp add: applyAll_snoc)
  next
    case (WithProxy x)
    then show ?thesis using snoc eh h by (auto simp add: applyAll_snoc)
  next
    case (WithUserAgent x)
    then show ?thesis using snoc eh h by (auto simp add: applyAll_snoc)
  qed
qed

lemma Report_reports:
  "reports (snd (Report env r e w)) = (if r = NilReporter then reports w else reports w @ [(r, e)])"
  by (cases r) (simp_all add: Report_def StdReporter_Report_def split: sum.splits)

lemma Report_kept:
  "currentReporter (snd (Report env r e w)) = currentReporter w \<and> heap (snd (Report env r e w)) = heap w"
  by (cases r) (simp_all add: Report_def StdReporter_Report_def split: sum.splits)

lemma Report_outcome:
  "fst (Report env r e w) =
    (case r of NilReporter \<Rightarrow> Some NilDereference
     | StdReporter \<Rightarrow> (case json_Marshal env (heap w) e of
          Inl msg \<Rightarrow> Some (PanicMsg (''failed to convert error to json: '' @ msg)) | Inr b \<Rightarrow> None)
     | CustomReporter n \<Rightarrow> None)"
  by (cases r) (simp_all add: Report_def StdReporter_Report_def toJSON_def split: sum.splits)

lemma Log_Inl: "parseError err = Inl p \<Longrightarrow> Log env c err withs w = (Some p, w)"
  by (simp add: Log_def)

lemma Log_Inr:
  "parseError err = Inr r \<Longrightarrow>
   Log env c err withs w =
     Report env (currentReporter w) (fst (built env c r withs (heap w)))
       (w\<lparr>heap := snd (built env c r withs (heap w))\<rparr>)"
  by (simp add: Log_def built_def Let_def split: prod.splits)

lemma Log_reports:
  "reports (snd (Log env c err withs w)) =
    (case parseError err of
       Inl p \<Rightarrow> reports w
     | Inr r \<Rightarrow> if currentReporter w = NilReporter then reports w
               else reports w @ [(currentReporter w, fst (built env c r withs (heap w)))])"
  by (cases "parseError err") (simp_all add: Log_Inl Log_Inr Report_reports)

lemma Log_delivered:
  assumes "reports (snd (Log env c err withs w)) = reports w @ [(rep, e)]"
  shows "\<exists>r. parseError err = Inr r \<and> rep = currentReporter w \<and> rep \<noteq> NilReporter
          \<and> e = fst (built env c r withs (heap w))"
  using assms by (auto simp add: Log_reports split: sum.splits if_splits)

lemma Log_kept:
  "currentReporter (snd (Log env c err withs w)) = currentReporter w"
  by (cases "parseError err") (simp_all add: Log_Inl Log_Inr Report_kept)

lemma built_store: "\<exists>xs. snd (built env c r withs h) = h @ xs"
proof -
  obtain e0 where "built env c r withs h = applyAll env withs (e0, h)"
    by (simp add: built_def)
  then show ?thesis using applyAll_store[of env withs "(e0, h)"] by simp
qed

lemma built_fixed:
  "GoPackage (fst (built env c r withs h)) = goPackage c
   \<and> GoType (fst (built env c r withs h)) = goType r
   \<and> Desc (fst (built env c r withs h)) = desc r
   \<and> Extra (fst (built env c r withs h)) = extra r
   \<and> systemInfo (fst (built env c r withs h)) = collectorInfo c"
  by (simp add: built_def applyAll_fixed)

lemma Log_store: "\<exists>xs. heap (snd (Log env c err withs w)) = heap w @ xs"
proof (cases "parseError err")
  case (Inl p)
  then show ?thesis by (simp add: Log_Inl)
next
  case (Inr r)
  then show ?thesis
    using built_store[of env c r withs "heap w"] by (simp add: Log_Inr Report_kept)
qed

lemma miscErrors_names: "map_of miscErrors v = Some k \<Longrightarrow> k \<noteq> []"
  by (cases v) (auto simp: miscErrors_def)

lemma httpProtocolErrors_names: "map_of httpProtocolErrors v = Some k \<Longrightarrow> k \<noteq> []"
  by (cases v) (auto simp: httpProtocolErrors_def)

lemma typeNameFallback_goType:
  "typeNameFallback o1 x (Val s m) = Inr r \<Longrightarrow> goType r = typeString s"
  by (auto simp: typeNameFallback_def split: sum.splits)

lemma kindWithErrorText_goType: "kindWithErrorText k x err = Inr r \<Longrightarrow> goType r = k"
  by (auto simp: kindWithErrorText_def split: sum.splits)

lemma netSwitch_goType_nonempty:
  assumes "netSwitch o1 x err = Inr r" and "case err of Nil \<Rightarrow> True | Val s m \<Rightarrow> typeString s \<noteq> []"
  shows "goType r \<noteq> []"
proof (cases err)
  case Nil
  then show ?thesis using assms(1) by (simp add: netSwitch_def typeNameFallback_def)
next
  case outer: (Val s m)
  show ?thesis
  proof (cases s)
    case (NilPtr t)
    then show ?thesis using outer assms
      by (cases t)
         (auto simp: netSwitch_def dest!: typeNameFallback_goType split: sum.splits)
  qed (use outer assms in
        \<open>auto simp: netSwitch_def dest!: typeNameFallback_goType split: sum.splits\<close>)
qed

lemma miscFallback_goType_nonempty:
  assumes "miscFallback x (Val s m) = Inr r" and "typeString s \<noteq> []"
  shows "goType r \<noteq> []"
  using assms
  by (auto simp: miscFallback_def miscErrors_access_def dest: miscErrors_names
      split: sum.splits option.splits if_splits shape.splits)

lemma structSwitch_goType_nonempty:
  assumes "structSwitch x (Val s m) = Inr r" and "typeString s \<noteq> []"
  shows "goType r \<noteq> []"
proof (cases s)
  case (NilPtr t)
  then show ?thesis using assms
    by (cases t)
       (auto simp: structSwitch_def
          dest!: kindWithErrorText_goType dest: miscFallback_goType_nonempty
          split: sum.splits)
next
  case (HttpProtocolError v es)
  then show ?thesis using assms(1)
    by (auto simp: structSwitch_def httpProtocolErrors_access_def
          dest: httpProtocolErrors_names split: option.splits)
qed (use assms in
      \<open>auto simp: structSwitch_def
         dest!: kindWithErrorText_goType dest: miscFallback_goType_nonempty
         split: sum.splits\<close>)

lemma runtimeSwitch_goType_nonempty:
  assumes "runtimeSwitch x (Val s m) = Inr r" and "typeString s \<noteq> []"
  shows "goType r \<noteq> []"
  using assms by (auto simp: runtimeSwitch_def split: sum.splits if_splits)

lemma parseError_goType_nonempty:
  assumes "parseError err = Inr r" and "typeNamed err"
  shows "goType r \<noteq> []"
proof (cases err)
  case Nil
  then show ?thesis using assms(1) by (simp add: parseError_Nil)
next
  case outer: (Val s m)
  have named: "typeString s \<noteq> []"
    using assms(2) outer by (simp add: typeNamed_def)
  show ?thesis
  proof (cases "implementsNetError err")
    case False
    then show ?thesis
      using assms(1) outer named runtimeSwitch_goType_nonempty structSwitch_goType_nonempty
      by (auto simp: parseError_def Let_def split: if_splits)
  next
    case True
    then obtain o1 x e where u: "unwrapOpError err = Inr (o1, x, e)"
      and n: "netSwitch o1 x e = Inr r"
      using assms(1) by (auto simp: parseError_def Let_def split: sum.splits prod.splits)
    have "case e of Nil \<Rightarrow> True | Val s' m' \<Rightarrow> typeString s' \<noteq> []"
      using u outer assms(2)
      by (auto simp: unwrapOpError_def typeNamed_def Let_def
            split: shape.splits ptrtype.splits goerr.splits)
    then show ?thesis using netSwitch_goType_nonempty[OF n] by simp
  qed
qed

lemma parseError_Other:
  "parseError (Val (Other name net rt h) m) = Inr r \<Longrightarrow>
     goType r = name \<and> m = Inr (desc r)"
  by (auto simp: parseError_defs Let_def split: if_splits sum.splits)

lemma parseError_wrapped_Other:
  "parseError (Val (NetOpError wop src addr nw (Val (Other name net rt h) m)) m') = Inr r \<Longrightarrow>
     goType r = name \<and> m = Inr (desc r)"
  by (auto simp: parseError_defs Let_def split: sum.splits)

lemma Log_delivers:
  assumes "classifiable err" and "currentReporter w \<noteq> NilReporter"
  shows "\<exists>e. reports (snd (Log env c err withs w)) = reports w @ [(currentReporter w, e)]"
proof -
  obtain r where "parseError err = Inr r"
    using assms(1) parseError_Inr_iff by blast
  then show ?thesis using assms(2) by (simp add: Log_reports)
qed

text \<open>
  C5, as amended. Whenever \<^verbatim>\<open>Log\<close> hands a record to the reporter, the record's Kind
  and Description are the ones \<^verbatim>\<open>parseError\<close> returned for the error; the Kind is
  not empty (Go type names are not empty: \<open>typeNamed\<close>); and when the error's type is
  outside the switches (or is such an error inside a \<^verbatim>\<open>*net.OpError\<close>), the Kind is
  the name of its dynamic type and the Description its message. \<^verbatim>\<open>Log\<close> does hand a
  record over when the error is classifiable and the
  reporter is not nil. The Description is the text the matched case takes from the error
  and can be empty.
\<close>

theorem Log_record_kind:
  assumes "typeNamed err"
  shows "(classifiable err \<and> currentReporter w \<noteq> NilReporter \<longrightarrow>
            (\<exists>e. reports (snd (Log env c err withs w)) = reports w @ [(currentReporter w, e)]))
     \<and> (\<forall>rep e. reports (snd (Log env c err withs w)) = reports w @ [(rep, e)] \<longrightarrow>
            GoType e \<noteq> []
          \<and> (\<exists>r. parseError err = Inr r \<and> GoType e = goType r \<and> Desc e = desc r)
          \<and> (\<forall>name net rt h m. err = Val (Other name net rt h) m \<longrightarrow>
                GoType e = name \<and> m = Inr (Desc e))
          \<and> (\<forall>wop src addr nw name net rt h m m'.
                err = Val (NetOpError wop src addr nw (Val (Other name net rt h) m)) m' \<longrightarrow>
                GoType e = name \<and> m = Inr (Desc e)))"
proof (intro conjI allI impI)
  show "\<exists>e. reports (snd (Log env c err withs w)) = reports w @ [(currentReporter w, e)]"
    if "classifiable err \<and> currentReporter w \<noteq> NilReporter"
    using that Log_delivers by blast
next
  fix rep e
  assume d: "reports (snd (Log env c err withs w)) = reports w @ [(rep, e)]"
  from Log_delivered[OF d] obtain r where
    r: "parseError err = Inr r" and e: "e = fst (built env c r withs (heap w))"
    by blast
  have k: "GoType e = goType r" and de: "Desc e = desc r"
    using e built_fixed[of env c r withs "heap w"] by simp_all
  show "GoType e \<noteq> []"
    using k parseError_goType_nonempty[OF r assms] by simp
  show "\<exists>r. parseError err = Inr r \<and> GoType e = goType r \<and> Desc e = desc r"
    using r k de by blast
  fix name net rt h m
  assume "err = Val (Other name net rt h) m"
  then have "goType r = name \<and> m = Inr (desc r)"
    using r parseError_Other by blast
  then show "GoType e = name" and "m = Inr (Desc e)" using k de by simp_all
next
  fix rep e wop src addr nw name net rt h m m'
  assume d: "reports (snd (Log env c err withs w)) = reports w @ [(rep, e)]"
    and w: "err = Val (NetOpError wop src addr nw (Val (Other name net rt h) m)) m'"
  from Log_delivered[OF d] obtain r where
    r: "parseError err = Inr r" and e: "e = fst (built env c r withs (heap w))"
    by blast
  have "goType r = name \<and> m = Inr (desc r)"
    using r w parseError_wrapped_Other by blast
  then show "GoType e = name" and "m = Inr (Desc e)"
    using e built_fixed[of env c r withs "heap w"] by simp_all
qed


lemma sampleWorld_eq:
  "sampleWorld = \<lparr>heap = [SystemInfoObj \<lparr>OSType = ''linux'', OSVersion = ''Ubuntu 14.04'', OSArch = ''amd64''\<rparr>],
      currentReporter = StdReporter, stdout = [], reports = []\<rparr>"
  by (simp add: sampleWorld_def sampleEnv_def NewErrorCollector_def initWorld_def new_def)

text \<open>The claim as stated fails: the case \<^verbatim>\<open>*time.ParseError\<close> takes the field
  \<^verbatim>\<open>Message\<close>, which is empty for an ordinary parse failure, and the record handed to
  the reporter has an empty Description.\<close>

theorem Log_empty_description:
  "map (\<lambda>(rep, e). (rep, GoType e, Desc e))
     (reports (snd (Log sampleEnv sampleCollector
        (Val (TimeParseError []) (Inr ''parsing time abc as 2006: cannot parse abc as 2006''))
        [] sampleWorld)))
   = [(StdReporter, ''time.ParseError'', [])]"
proof -
  have "parseError (Val (TimeParseError []) (Inr ''parsing time abc as 2006: cannot parse abc as 2006''))
          = Inr \<lparr>op = [], goType = ''time.ParseError'', desc = [], extra = Some Map.empty\<rparr>"
    by (simp add: parseError_defs)
  then show ?thesis
    by (simp add: Log_reports built_def sampleWorld_eq)
qed

theorem Log_record_kind_witness:
  "\<exists>e. reports (snd (Log sampleEnv sampleCollector
            (Val (Other ''*errors.errorString'' False False True) (Inr ''proxy said no''))
            [WithLocale] sampleWorld))
        = reports sampleWorld @ [(StdReporter, e)]
      \<and> GoType e = ''*errors.errorString'' \<and> Desc e = ''proxy said no''"
proof -
  have t: "typeNamed (Val (Other ''*errors.errorString'' False False True) (Inr ''proxy said no''))"
    by (simp add: typeNamed_def typeString_def)
  have c: "classifiable (Val (Other ''*errors.errorString'' False False True) (Inr ''proxy said no''))"
    by (simp add: classifiable_defs)
  have r: "currentReporter sampleWorld = StdReporter"
    by (simp add: sampleWorld_eq)
  show ?thesis
    using Log_record_kind[OF t, of sampleWorld sampleEnv sampleCollector "[WithLocale]"] c r
    by auto
qed

lemma built_last_WithOp:
  assumes "\<forall>f \<in> set post. \<not> isWithOp f"
  shows "Op (fst (built env c r (pre @ WithOp opn # post) h)) = opn"
proof -
  obtain e0 where b: "built env c r (pre @ WithOp opn # post) h =
      applyAll env post (applyWith env (WithOp opn) (applyAll env pre (e0, h)))"
    by (simp add: built_def applyAll_append)
  obtain e1 h1 where p: "applyAll env pre (e0, h) = (e1, h1)"
    by (cases "applyAll env pre (e0, h)")
  show ?thesis
    using applyAll_Op_kept[OF assms, of env "(e1\<lparr>Op := opn\<rparr>, h1)"] by (simp add: b p)
qed

text \<open>
  C8, as amended. For a decorator list in which \<^verbatim>\<open>WithOp(o)\<close> is the last
  \<^verbatim>\<open>WithOp\<close>, the record handed to the reporter has Operation \<open>o\<close>, whatever
  Operation the classifier inferred; \<^verbatim>\<open>Log\<close> hands the record over when the error is
  classifiable and the reporter is not nil.
\<close>

theorem Log_last_WithOp:
  assumes "\<forall>f \<in> set post. \<not> isWithOp f"
  shows "(classifiable err \<and> currentReporter w \<noteq> NilReporter \<longrightarrow>
            (\<exists>e. reports (snd (Log env c err (pre @ WithOp opn # post) w))
                   = reports w @ [(currentReporter w, e)]))
     \<and> (\<forall>rep e. reports (snd (Log env c err (pre @ WithOp opn # post) w))
                   = reports w @ [(rep, e)] \<longrightarrow> Op e = opn)"
proof (intro conjI allI impI)
  show "\<exists>e. reports (snd (Log env c err (pre @ WithOp opn # post) w))
              = reports w @ [(currentReporter w, e)]"
    if "classifiable err \<and> currentReporter w \<noteq> NilReporter"
    using that Log_delivers by blast
next
  fix rep e
  assume d: "reports (snd (Log env c err (pre @ WithOp opn # post) w)) = reports w @ [(rep, e)]"
  from Log_delivered[OF d] obtain r where
    "e = fst (built env c r (pre @ WithOp opn # post) (heap w))"
    by blast
  then show "Op e = opn" using built_last_WithOp[OF assms] by simp
qed

lemma parseError_EOF:
  "parseError (Val (PkgVar Io_EOF) (Inr ''EOF'')) =
     Inr \<lparr>op = [], goType = ''io.EOF'', desc = ''EOF'', extra = Some Map.empty\<rparr>"
  by (simp add: parseError_defs miscErrors_def)

lemma classifiable_EOF: "classifiable (Val (PkgVar Io_EOF) (Inr ''EOF''))"
  by (simp add: classifiable_defs)

lemma sampleWorld_reporter: "currentReporter sampleWorld = StdReporter"
  by (simp add: sampleWorld_eq)

theorem Log_last_WithOp_witness:
  "\<exists>e. reports (snd (Log sampleEnv sampleCollector (Val (PkgVar Io_EOF) (Inr ''EOF''))
                     ([WithLocale] @ WithOp OpDial # [WithProxy None]) sampleWorld))
          = reports sampleWorld @ [(StdReporter, e)]
      \<and> Op e = OpDial"
proof -
  have "\<forall>f \<in> set [WithProxy None]. \<not> isWithOp f"
    by (simp add: isWithOp_def)
  from Log_last_WithOp[OF this, of "Val (PkgVar Io_EOF) (Inr ''EOF'')" sampleWorld sampleEnv
         sampleCollector "[WithLocale]" OpDial]
  show ?thesis using classifiable_EOF sampleWorld_reporter by auto
qed

text \<open>The claim as stated fails: the list contains \<^verbatim>\<open>WithOp("read")\<close>, and the record
  has the Operation of the later \<^verbatim>\<open>WithOp("write")\<close>.\<close>

theorem Log_earlier_WithOp_overridden:
  "map (\<lambda>(rep, e). Op e)
     (reports (snd (Log sampleEnv sampleCollector (Val (PkgVar Io_EOF) (Inr ''EOF''))
                     [WithOp OpRead, WithOp OpWrite] sampleWorld)))
   = [''write'']
   \<and> OpRead = ''read''"
  by (simp add: Log_reports parseError_EOF built_def sampleWorld_eq OpRead_def OpWrite_def)

lemma step_store: "\<exists>xs. heap (step env w k) = heap w @ xs"
  by (cases k) (simp_all add: ReportTo_def Log_store)

lemma run_store: "\<exists>xs. heap (run env calls w) = heap w @ xs"
proof (induction calls rule: rev_induct)
  case Nil
  show ?case by (simp add: run_def)
next
  case (snoc k calls)
  obtain xs where 1: "heap (run env calls w) = heap w @ xs" using snoc by blast
  obtain ys where 2: "heap (step env (run env calls w) k) = heap (run env calls w) @ ys"
    using step_store by blast
  show ?case using 1 2 by (simp add: run_def)
qed





text \<open>
  C2, as amended. \<^verbatim>\<open>Log\<close> returns normally exactly when \<^verbatim>\<open>parseError\<close> returns
  on the error, the active reporter is not nil and, if it is the \<^verbatim>\<open>StdReporter\<close>,
  \<^verbatim>\<open>json.Marshal\<close> succeeds on the record; in every other case it panics.
\<close>

theorem Log_returns_iff:
  "(fst (Log env c err withs w) = None) =
     (\<exists>r. parseError err = Inr r \<and>
          (case currentReporter w of
             NilReporter \<Rightarrow> False
           | StdReporter \<Rightarrow>
               (\<exists>b. json_Marshal env (snd (built env c r withs (heap w)))
                                     (fst (built env c r withs (heap w))) = Inr b)
           | CustomReporter n \<Rightarrow> True))"
proof (cases "parseError err")
  case (Inl p)
  then show ?thesis by (simp add: Log_Inl)
next
  case (Inr r)
  then show ?thesis
    by (cases "currentReporter w")
       (auto simp add: Log_Inr Report_outcome split: sum.splits)
qed

theorem Log_returns_iff_witness:
  "fst (Log sampleEnv sampleCollector (Val (PkgVar Io_EOF) (Inr ''EOF'')) [WithLocale] sampleWorld)
     = None"
  using Log_returns_iff[of sampleEnv sampleCollector "Val (PkgVar Io_EOF) (Inr ''EOF'')"
          "[WithLocale]" sampleWorld]
  by (simp add: parseError_EOF sampleWorld_reporter sampleEnv_def)

text \<open>The claim as stated fails: \<^verbatim>\<open>Log\<close> panics with the message of
  \<^verbatim>\<open>toJSON\<close> when the \<^verbatim>\<open>StdReporter\<close> cannot serialize the record, and it panics
  on a nil error.\<close>

theorem Log_panics:
  "fst (Log failingMarshalEnv sampleCollector (Val (PkgVar Io_EOF) (Inr ''EOF'')) [] sampleWorld)
     = Some (PanicMsg ''failed to convert error to json: json: unsupported value'')
   \<and> fst (Log sampleEnv sampleCollector Nil [WithOp OpRead] sampleWorld) = Some NilDereference"
  by (simp add: Log_Nil Log_Inr parseError_EOF Report_outcome sampleWorld_reporter
        failingMarshalEnv_def)

lemma built_last_WithProxy:
  assumes "\<forall>f \<in> set post. \<not> isWithProxy f"
  shows "ProxyingInfo (fst (built env c r (pre @ WithProxy info # post) h)) = info"
proof -
  obtain e0 where b: "built env c r (pre @ WithProxy info # post) h =
      applyAll env post (applyWith env (WithProxy info) (applyAll env pre (e0, h)))"
    by (simp add: built_def applyAll_append)
  obtain e1 h1 where p: "applyAll env pre (e0, h) = (e1, h1)"
    by (cases "applyAll env pre (e0, h)")
  show ?thesis
    using applyAll_Proxy_kept[OF assms, of env "(e1\<lparr>ProxyingInfo := info\<rparr>, h1)"]
    by (simp add: b p)
qed

lemma built_last_WithUserAgent:
  assumes "\<forall>f \<in> set post. \<not> isWithUserAgent f"
  shows "UserAgentInfo (fst (built env c r (pre @ WithUserAgent info # post) h)) = info"
proof -
  obtain e0 where b: "built env c r (pre @ WithUserAgent info # post) h =
      applyAll env post (applyWith env (WithUserAgent info) (applyAll env pre (e0, h)))"
    by (simp add: built_def applyAll_append)
  obtain e1 h1 where p: "applyAll env pre (e0, h) = (e1, h1)"
    by (cases "applyAll env pre (e0, h)")
  show ?thesis
    using applyAll_UserAgent_kept[OF assms, of env "(e1\<lparr>UserAgentInfo := info\<rparr>, h1)"]
    by (simp add: b p)
qed

lemma built_Locale:
  assumes "WithLocale \<in> set withs"
  shows "\<exists>a. UserLocale (fst (built env c r withs h)) = Some a
          \<and> length h \<le> a \<and> a < length (snd (built env c r withs h))"
proof -
  obtain e0 where b: "built env c r withs h = applyAll env withs (e0, h)"
    by (simp add: built_def)
  show ?thesis using applyAll_Locale[of withs env "(e0, h)"] assms by (auto simp add: b)
qed

lemma Log_heap:
  "parseError err = Inr r \<Longrightarrow>
     heap (snd (Log env c err withs w)) = snd (built env c r withs (heap w))"
  by (simp add: Log_Inr Report_kept)

text \<open>
  C7, as amended. Take two records handed over by separate calls of \<^verbatim>\<open>Log\<close>, the
  second in any state reached from the first by calls of the package. The
  \<^verbatim>\<open>ProxyingInfo\<close> and \<^verbatim>\<open>UserAgentInfo\<close> blocks are the caller's: when both calls
  are given the same block argument (as their last \<^verbatim>\<open>WithProxy\<close>, or
  \<^verbatim>\<open>WithUserAgent\<close>), both records hold that very pointer. Only the \<^verbatim>\<open>UserLocale\<close>
  blocks, which \<^verbatim>\<open>WithLocale\<close> allocates, are distinct cells.
\<close>

theorem Log_blocks_of_two_records:
  assumes d1: "reports (snd (Log env c1 err1 withs1 w)) = reports w @ [(rep1, e1)]"
      and w': "w' = run env calls (snd (Log env c1 err1 withs1 w))"
      and d2: "reports (snd (Log env c2 err2 withs2 w')) = reports w' @ [(rep2, e2)]"
  shows "(\<forall>info pre1 post1 pre2 post2.
            withs1 = pre1 @ WithProxy info # post1 \<and> (\<forall>f \<in> set post1. \<not> isWithProxy f) \<and>
            withs2 = pre2 @ WithProxy info # post2 \<and> (\<forall>f \<in> set post2. \<not> isWithProxy f)
            \<longrightarrow> ProxyingInfo e1 = info \<and> ProxyingInfo e2 = info)
     \<and> (\<forall>info pre1 post1 pre2 post2.
            withs1 = pre1 @ WithUserAgent info # post1 \<and> (\<forall>f \<in> set post1. \<not> isWithUserAgent f) \<and>
            withs2 = pre2 @ WithUserAgent info # post2 \<and> (\<forall>f \<in> set post2. \<not> isWithUserAgent f)
            \<longrightarrow> UserAgentInfo e1 = info \<and> UserAgentInfo e2 = info)
     \<and> (WithLocale \<in> set withs1 \<and> WithLocale \<in> set withs2 \<longrightarrow>
          (\<exists>a1 a2. UserLocale e1 = Some a1 \<and> UserLocale e2 = Some a2 \<and> a1 < a2))"
proof -
  from Log_delivered[OF d1] obtain r1 where
    r1: "parseError err1 = Inr r1" and e1: "e1 = fst (built env c1 r1 withs1 (heap w))"
    by blast
  from Log_delivered[OF d2] obtain r2 where
    r2: "parseError err2 = Inr r2" and e2: "e2 = fst (built env c2 r2 withs2 (heap w'))"
    by blast
  have proxy: "ProxyingInfo e1 = info \<and> ProxyingInfo e2 = info"
    if "withs1 = pre1 @ WithProxy info # post1 \<and> (\<forall>f \<in> set post1. \<not> isWithProxy f) \<and>
        withs2 = pre2 @ WithProxy info # post2 \<and> (\<forall>f \<in> set post2. \<not> isWithProxy f)"
    for info pre1 post1 pre2 post2
    using that e1 e2 by (simp add: built_last_WithProxy)
  have agent: "UserAgentInfo e1 = info \<and> UserAgentInfo e2 = info"
    if "withs1 = pre1 @ WithUserAgent info # post1 \<and> (\<forall>f \<in> set post1. \<not> isWithUserAgent f) \<and>
        withs2 = pre2 @ WithUserAgent info # post2 \<and> (\<forall>f \<in> set post2. \<not> isWithUserAgent f)"
    for info pre1 post1 pre2 post2
    using that e1 e2 by (simp add: built_last_WithUserAgent)
  have loc: "\<exists>a1 a2. UserLocale e1 = Some a1 \<and> UserLocale e2 = Some a2 \<and> a1 < a2"
    if l: "WithLocale \<in> set withs1 \<and> WithLocale \<in> set withs2"
  proof -
    obtain a1 where a1: "UserLocale e1 = Some a1"
        "a1 < length (snd (built env c1 r1 withs1 (heap w)))"
      using built_Locale[of withs1 env c1 r1 "heap w"] l e1 by auto
    obtain a2 where a2: "UserLocale e2 = Some a2" "length (heap w') \<le> a2"
      using built_Locale[of withs2 env c2 r2 "heap w'"] l e2 by auto
    obtain xs where "heap w' = heap (snd (Log env c1 err1 withs1 w)) @ xs"
      using run_store w' by blast
    then have "length (snd (built env c1 r1 withs1 (heap w))) \<le> length (heap w')"
      by (simp add: Log_heap[OF r1])
    then show ?thesis using a1 a2 by auto
  qed
  show ?thesis using proxy agent loc by blast
qed


lemma parseError_ClosedPipe:
  "parseError (Val (PkgVar Io_ErrClosedPipe) (Inr ''io: read/write on closed pipe'')) =
     Inr \<lparr>op = [], goType = ''io.ErrClosedPipe'', desc = ''io: read/write on closed pipe'',
          extra = Some Map.empty\<rparr>"
  by (simp add: parseError_defs miscErrors_def)

lemma proxyWorld_eq:
  "proxyWorld = \<lparr>heap = [SystemInfoObj \<lparr>OSType = ''linux'', OSVersion = ''Ubuntu 14.04'',
                                          OSArch = ''amd64''\<rparr>,
                          ProxyingInfoObj sampleProxy],
      currentReporter = StdReporter, stdout = [], reports = []\<rparr>"
  by (simp add: proxyWorld_def sampleWorld_eq)

lemmas Log_eval =
  run_def Log_reports Log_kept Log_heap[OF parseError_EOF] Log_heap[OF parseError_ClosedPipe]
  parseError_EOF parseError_ClosedPipe built_def new_eq proxyWorld_eq

text \<open>The claim as stated fails: two calls given the same \<^verbatim>\<open>*ProxyingInfo\<close> hand over
  records that point to the one block at address 1, and a later write of the caller to
  that block is read through both records.\<close>

theorem Log_shares_proxy_block:
  "map (\<lambda>(rep, e). ProxyingInfo e)
     (reports (run sampleEnv
        [LogCall sampleCollector (Val (PkgVar Io_EOF) (Inr ''EOF'')) [WithProxy (Some 1)],
         LogCall sampleCollector (Val (PkgVar Io_ErrClosedPipe) (Inr ''io: read/write on closed pipe''))
           [WithProxy (Some 1)]]
        proxyWorld))
    = [Some 1, Some 1]
   \<and> map (\<lambda>(rep, e).
          deref ((heap (run sampleEnv
             [LogCall sampleCollector (Val (PkgVar Io_EOF) (Inr ''EOF'')) [WithProxy (Some 1)],
              LogCall sampleCollector (Val (PkgVar Io_ErrClosedPipe) (Inr ''io: read/write on closed pipe''))
                [WithProxy (Some 1)]]
             proxyWorld))
                  [1 := ProxyingInfoObj (sampleProxy\<lparr>ProxyAddr := ''10.0.0.10:443''\<rparr>)])
            (ProxyingInfo e))
     (reports (run sampleEnv
        [LogCall sampleCollector (Val (PkgVar Io_EOF) (Inr ''EOF'')) [WithProxy (Some 1)],
         LogCall sampleCollector (Val (PkgVar Io_ErrClosedPipe) (Inr ''io: read/write on closed pipe''))
           [WithProxy (Some 1)]]
        proxyWorld))
    = [Some (ProxyingInfoObj (sampleProxy\<lparr>ProxyAddr := ''10.0.0.10:443''\<rparr>)),
       Some (ProxyingInfoObj (sampleProxy\<lparr>ProxyAddr := ''10.0.0.10:443''\<rparr>))]"
  by (simp add: Log_eval deref_def)

theorem Log_blocks_of_two_records_witness:
  "\<exists>e1 e2 a1 a2.
      reports (run sampleEnv
        [LogCall sampleCollector (Val (PkgVar Io_EOF) (Inr ''EOF'')) [WithLocale, WithProxy (Some 1)],
         LogCall sampleCollector (Val (PkgVar Io_ErrClosedPipe) (Inr ''io: read/write on closed pipe''))
           [WithLocale, WithProxy (Some 1)]]
        proxyWorld) = [(StdReporter, e1), (StdReporter, e2)]
    \<and> ProxyingInfo e1 = Some 1 \<and> ProxyingInfo e2 = Some 1
    \<and> UserLocale e1 = Some a1 \<and> UserLocale e2 = Some a2 \<and> a1 < a2"
proof -
  let ?err1 = "Val (PkgVar Io_EOF) (Inr ''EOF'')"
  let ?err2 = "Val (PkgVar Io_ErrClosedPipe) (Inr ''io: read/write on closed pipe'')"
  let ?ws = "[WithLocale, WithProxy (Some 1)]"
  let ?w1 = "snd (Log sampleEnv sampleCollector ?err1 ?ws proxyWorld)"
  obtain e1 where d1: "reports ?w1 = reports proxyWorld @ [(StdReporter, e1)]"
    by (simp add: Log_eval)
  obtain e2 where d2: "reports (snd (Log sampleEnv sampleCollector ?err2 ?ws (run sampleEnv [] ?w1)))
                        = reports (run sampleEnv [] ?w1) @ [(StdReporter, e2)]"
    by (simp add: Log_eval)
  note two = Log_blocks_of_two_records[OF d1 refl d2]
  have "?ws = [WithLocale] @ WithProxy (Some 1) # [] \<and> (\<forall>f \<in> set []. \<not> isWithProxy f) \<and>
        ?ws = [WithLocale] @ WithProxy (Some 1) # [] \<and> (\<forall>f \<in> set []. \<not> isWithProxy f)
        \<longrightarrow> ProxyingInfo e1 = Some 1 \<and> ProxyingInfo e2 = Some 1"
    using two by blast
  then have "ProxyingInfo e1 = Some 1 \<and> ProxyingInfo e2 = Some 1"
    by simp
  moreover have "\<exists>a1 a2. UserLocale e1 = Some a1 \<and> UserLocale e2 = Some a2 \<and> a1 < a2"
    using two by simp
  moreover have "reports (run sampleEnv
        [LogCall sampleCollector ?err1 ?ws, LogCall sampleCollector ?err2 ?ws] proxyWorld)
      = [(StdReporter, e1), (StdReporter, e2)]"
    using d1 d2 by (simp add: run_def proxyWorld_eq)
  ultimately show ?thesis by blast
qed

lemma run_append: "run env (xs @ ys) w = run env ys (run env xs w)"
  by (simp add: run_def)

lemma run_snoc: "run env (xs @ [k]) w = step env (run env xs w) k"
  by (simp add: run_def)

lemma run_Cons: "run env (k # ks) w = run env ks (step env w k)"
  by (simp add: run_def)

lemma step_Log_reports:
  assumes "currentReporter w = r"
  shows "reports (step env w (LogCall c err withs)) =
          (if r \<noteq> NilReporter \<and> classifies (LogCall c err withs)
           then reports w @ [(r, fst (built env c (projr (parseError err)) withs (heap w)))]
           else reports w)"
  using assms
  by (cases "parseError err") (simp_all add: Log_reports classifies_def)

lemma logs_after_ReportTo:
  assumes "\<forall>k \<in> set post. isLogCall k" and "currentReporter w = r"
  shows "currentReporter (run env post w) = r
     \<and> (\<exists>recs. reports (run env post w) = reports w @ map (Pair r) recs
          \<and> (if r = NilReporter then recs = []
              else map (\<lambda>e. (GoType e, Desc e)) recs = map classified (filter classifies post)))"
  using assms(1)
proof (induction post rule: rev_induct)
  case Nil
  show ?case using assms(2) by (simp add: run_def)
next
  case (snoc k post)
  then obtain recs where
    cur: "currentReporter (run env post w) = r" and
    rep: "reports (run env post w) = reports w @ map (Pair r) recs" and
    cnt: "if r = NilReporter then recs = []
          else map (\<lambda>e. (GoType e, Desc e)) recs = map classified (filter classifies post)"
    by auto
  from snoc.prems obtain c err withs where k: "k = LogCall c err withs"
    by (cases k) (auto simp add: isLogCall_def)
  let ?w = "run env post w"
  have cur': "currentReporter (run env (post @ [k]) w) = r"
    using cur by (simp add: run_snoc k Log_kept)
  show ?case
  proof (cases "r \<noteq> NilReporter \<and> classifies k")
    case False
    then have "reports (run env (post @ [k]) w) = reports w @ map (Pair r) recs"
      using step_Log_reports[OF cur, of env c err withs] rep by (simp add: run_snoc k)
    then show ?thesis using cur' cnt False
      by (intro conjI exI[of _ recs]) (simp_all split: if_splits)
  next
    case True
    let ?e = "fst (built env c (projr (parseError err)) withs (heap ?w))"
    have "reports (run env (post @ [k]) w) = reports w @ map (Pair r) (recs @ [?e])"
      using step_Log_reports[OF cur, of env c err withs] rep True by (simp add: run_snoc k)
    moreover have "(GoType ?e, Desc ?e) = classified k"
      using True by (auto simp add: k classifies_def classified_def built_fixed split: sum.splits)
    ultimately show ?thesis using cur' cnt True
      by (intro conjI exI[of _ "recs @ [?e]"]) simp_all
  qed
qed

text \<open>
  C3, as amended. In a sequence of calls, after \<^verbatim>\<open>ReportTo(r)\<close> and up to the
  next \<^verbatim>\<open>ReportTo\<close>, the calls of \<^verbatim>\<open>Report\<close> made are calls of \<open>r\<close> only: the log of
  the earlier calls is unchanged, and it is extended by one record for each \<^verbatim>\<open>Log\<close>
  whose \<^verbatim>\<open>parseError\<close> returns, in order, with that call's Kind and Description (by
  none when \<open>r\<close> is nil). Each record is handed to one reporter, once.
\<close>

theorem ReportTo_routes_later_logs:
  assumes "\<forall>k \<in> set post. isLogCall k"
  shows "\<exists>recs. reports (run env (pre @ ReportToCall r # post) w)
                  = reports (run env pre w) @ map (Pair r) recs
          \<and> (if r = NilReporter then recs = []
              else map (\<lambda>e. (GoType e, Desc e)) recs = map classified (filter classifies post))"
proof -
  have "run env (pre @ ReportToCall r # post) w = run env post (ReportTo r (run env pre w))"
    by (simp add: run_append run_Cons)
  moreover have "currentReporter (ReportTo r (run env pre w)) = r"
    and "reports (ReportTo r (run env pre w)) = reports (run env pre w)"
    by (simp_all add: ReportTo_def)
  ultimately show ?thesis
    using logs_after_ReportTo[OF assms, of "ReportTo r (run env pre w)" r env] by simp
qed

theorem ReportTo_routes_later_logs_witness:
  "\<exists>recs. reports (run sampleEnv
              ([LogCall sampleCollector (Val (PkgVar Io_EOF) (Inr ''EOF'')) [],
                ReportToCall (CustomReporter 3)]
               @ ReportToCall (CustomReporter 7)
               # [LogCall sampleCollector (Val (PkgVar Io_EOF) (Inr ''EOF'')) [WithOp OpRead],
                  LogCall sampleCollector Nil [],
                  LogCall sampleCollector (Val (PkgVar Io_ErrClosedPipe) (Inr ''io: read/write on closed pipe'')) []])
              sampleWorld)
         = reports (run sampleEnv
              [LogCall sampleCollector (Val (PkgVar Io_EOF) (Inr ''EOF'')) [],
               ReportToCall (CustomReporter 3)] sampleWorld)
           @ map (Pair (CustomReporter 7)) recs
      \<and> map (\<lambda>e. (GoType e, Desc e)) recs =
          [(''io.EOF'', ''EOF''), (''io.ErrClosedPipe'', ''io: read/write on closed pipe'')]"
proof -
  have "\<forall>k \<in> set [LogCall sampleCollector (Val (PkgVar Io_EOF) (Inr ''EOF'')) [WithOp OpRead],
                  LogCall sampleCollector Nil [],
                  LogCall sampleCollector (Val (PkgVar Io_ErrClosedPipe) (Inr ''io: read/write on closed pipe'')) []].
          isLogCall k"
    by (simp add: isLogCall_def)
  from ReportTo_routes_later_logs[OF this, of sampleEnv
         "[LogCall sampleCollector (Val (PkgVar Io_EOF) (Inr ''EOF'')) [],
           ReportToCall (CustomReporter 3)]" "CustomReporter 7" sampleWorld]
  show ?thesis
    by (simp add: classifies_def classified_def parseError_EOF parseError_ClosedPipe parseError_Nil)
qed

text \<open>The claim as stated fails: after \<^verbatim>\<open>ReportTo(r)\<close> a call of \<^verbatim>\<open>Log\<close> on a nil
  error panics in \<^verbatim>\<open>parseError\<close> and hands nothing to \<open>r\<close>; and after
  \<^verbatim>\<open>ReportTo(nil)\<close> a call of \<^verbatim>\<open>Log\<close> panics at the call of \<^verbatim>\<open>Report\<close>.\<close>

theorem ReportTo_then_Log_without_delivery:
  "reports (run sampleEnv
      [ReportToCall (CustomReporter 7), LogCall sampleCollector Nil []] sampleWorld) = []
   \<and> reports (run sampleEnv
      [ReportToCall NilReporter, LogCall sampleCollector (Val (PkgVar Io_EOF) (Inr ''EOF'')) []]
      sampleWorld) = []"
  by (simp add: run_def ReportTo_def Log_reports parseError_Nil parseError_EOF sampleWorld_eq)


end
